theory Spec2Isabelle
  imports Complex_Main
begin

section \<open>The WebGL helper of ol/webgl/Helper.js\<close>

text \<open>
  A shallow embedding of the class \<open>WebGLHelper\<close>. The helper object is a record that
  every method takes and returns; a method that can throw returns a \<open>result\<close> together
  with the helper as it stands at the moment of the throw, since the mutations made before
  a JavaScript exception persist. The rendering context and the post-processing passes are
  external objects: every call the helper makes on them is appended to the field
  \<open>trace\<close>, in the order issued. JavaScript numbers are modelled as reals with exact
  arithmetic. Private fields are written without their trailing underscore
  (\<open>bufferCache\<close> for \<open>bufferCache_\<close>), which is not a legal name here.
\<close>

subsection \<open>Values\<close>

type_synonym number = real

text \<open>Opaque handles handed out by the rendering context (buffers, shaders, programs,
  textures) and uniform locations.\<close>

type_synonym handle = nat
type_synonym location = nat

text \<open>The identity token \<open>getUid\<close> returns: a string.\<close>

type_synonym uid = string

datatype error = TypeError

datatype 'a result = Return 'a | Throw error

text \<open>The enumeration constants the helper passes to the context; \<open>GLenum n\<close> is any
  other number a caller may pass as a target.\<close>

datatype glenum =
    ARRAY_BUFFER | ELEMENT_ARRAY_BUFFER
  | TRIANGLES | UNSIGNED_INT | UNSIGNED_SHORT | UNSIGNED_BYTE
  | TEXTURE_2D | TEXTURE_MAG_FILTER | TEXTURE_MIN_FILTER | TEXTURE_WRAP_S | TEXTURE_WRAP_T
  | LINEAR | CLAMP_TO_EDGE | RGBA
  | COMPILE_STATUS | COLOR_BUFFER_BIT | BLEND | ONE | ONE_MINUS_SRC_ALPHA
  | GLenum nat

text \<open>\<open>new Float32Array(arr)\<close>, \<open>new Uint32Array(arr)\<close>, \<open>new Uint16Array(arr)\<close> and
  \<open>new Uint8Array(arr)\<close>: the constructor applied and the array it is applied to.\<close>

datatype typed_array =
    Float32Array "number list"
  | Uint32Array "number list"
  | Uint16Array "number list"
  | Uint8Array "number list"

text \<open>A buffer object (ol/webgl/Buffer.js): its uid, \<open>getArray()\<close> and \<open>getUsage()\<close>.\<close>

record buffer_object =
  bufUid :: uid
  bufArray :: "number list"
  bufUsage :: glenum

text \<open>A shader object (ol/webgl/Shader.js): its uid, \<open>getType()\<close> and \<open>getSource()\<close>.\<close>

record shader_object =
  shaderUid :: uid
  shaderType :: glenum
  shaderSource :: string

record bufferCacheEntry =
  buf :: buffer_object
  buffer :: handle

text \<open>The value of a custom uniform after \<open>typeof uniform.value === 'function' ?
  uniform.value() : uniform.value\<close>, by the tests \<open>applyUniforms\<close> makes on it: a canvas
  element or an \<open>ImageData\<close> (its width, height and data), an array, a number, or
  anything else.\<close>

datatype image = HTMLCanvasElement nat | ImageData number number "number list"

datatype uniform_value =
    ImageValue image
  | ArrayValue "number list"
  | NumberValue number
  | OtherValue

text \<open>\<open>uniform.value\<close>: a value, or a function of no arguments returning one.\<close>

datatype uniform_source = Static uniform_value | Producer uniform_value

record custom_uniform =
  name :: string
  uvalue :: uniform_source
  texture :: "handle option"

text \<open>A transform of ol/transform.js is an array of six numbers; a mat4 one of sixteen.\<close>

datatype transform = Transform number number number number number number

type_synonym mat4 = "number list"

text \<open>The options a post-processing pass is constructed from, and the pass object, told
  apart by its position in the order of construction.\<close>

record pass_options =
  scaleRatio :: "number option"
  vertexShader :: "string option"
  fragmentShader :: "string option"
  passUniforms :: "(string \<times> uniform_source) list option"

record pass =
  passIndex :: nat
  passOptions :: pass_options

record options =
  optUniforms :: "(string \<times> uniform_source) list option"
  optPostProcesses :: "pass_options list option"

datatype css_value = CssText string | Px number

record canvas =
  width :: number
  height :: number
  stylePosition :: css_value
  styleWidth :: css_value
  styleHeight :: css_value

record viewState =
  center :: "number \<times> number"
  resolution :: number
  rotation :: number

record frameState =
  fsSize :: "number \<times> number"
  fsViewState :: viewState

subsection \<open>The rendering context and the calls made on it\<close>

text \<open>Every call the helper makes on an external object, grouped by the kind of object
  it concerns. A creation call carries the handle it returned.\<close>

datatype buffer_call =
    CreateBuffer handle
  | BindBuffer glenum handle
  | BufferData glenum "typed_array option" glenum
  | DeleteBuffer handle

datatype program_call =
    CreateShader glenum handle
  | ShaderSource handle string
  | CompileShader handle
  | GetShaderParameter handle glenum
  | GetShaderInfoLog handle
  | CreateProgram handle
  | AttachShader handle handle
  | LinkProgram handle
  | UseProgram "handle option"

datatype uniform_call =
    GetUniformLocation "handle option" string
  | GetAttribLocation "handle option" string
  | Uniform1f "location option" number
  | Uniform1i "location option" nat
  | Uniform2f "location option" number number
  | Uniform3f "location option" number number number
  | Uniform4f "location option" number number number number
  | UniformMatrix4fv "location option" bool mat4
  | EnableVertexAttribArray int
  | VertexAttribPointer int number glenum bool number number

datatype texture_call =
    CreateTexture handle
  | ActiveTexture nat
  | BindTexture glenum "handle option"
  | TexParameteri glenum glenum glenum
  | TexImage2DData glenum nat glenum glenum number number nat glenum typed_array
  | TexImage2DCanvas glenum nat glenum glenum glenum nat
  | TexImage2DNull glenum nat glenum number number nat glenum glenum

datatype context_call =
    GetExtension string
  | IsContextLost
  | DrawElements glenum number glenum number
  | ClearColor number number number number
  | Clear glenum
  | Enable glenum
  | BlendFunc glenum glenum

datatype event =
    BufferCall buffer_call
  | ProgramCall program_call
  | UniformCall uniform_call
  | TextureCall texture_call
  | ContextCall context_call
  | ConsoleError string
  | PassInit pass "number \<times> number" number
  | PassApply pass "pass option"

text \<open>The rendering context, as far as the helper observes it: the next handle it will
  hand out, whether it is lost, and the answers it gives to the helper's queries.\<close>

record gl_context =
  nextHandle :: handle
  contextLost :: bool
  uniformLocationOf :: "handle option \<Rightarrow> string \<Rightarrow> location option"
  attribLocationOf :: "handle option \<Rightarrow> string \<Rightarrow> int"
  compileStatusOf :: "handle \<Rightarrow> bool"
  shaderInfoLogOf :: "handle \<Rightarrow> string"

subsection \<open>The helper\<close>

text \<open>The fields \<open>uniformLocations_\<close> and \<open>attribLocations_\<close> are \<open>None\<close> while they are
  \<open>undefined\<close>. A uniform location stored in the map is \<open>None\<close> for \<open>null\<close>. The
  objects used as dictionaries are maps from their own property names; the names every
  object inherits (such as \<open>constructor\<close>) are not modelled.\<close>

record helper =
  canvas :: canvas
  gl :: gl_context
  bufferCache :: "uid \<rightharpoonup> bufferCacheEntry"
  shaderCache :: "uid \<rightharpoonup> handle"
  programCache :: "string \<rightharpoonup> handle"
  currentProgram :: "handle option"
  hasOESElementIndexUint :: bool
  projectionMatrix :: transform
  offsetRotateMatrix :: transform
  offsetScaleMatrix :: transform
  tmpMat4 :: mat4
  uniformLocations :: "(string \<rightharpoonup> location option) option"
  attribLocations :: "(string \<rightharpoonup> int) option"
  uniforms :: "custom_uniform list"
  postProcessPasses :: "pass list"
  trace :: "event list"

definition emit :: "event \<Rightarrow> helper \<Rightarrow> helper" where
  "emit e h = h\<lparr>trace := trace h @ [e]\<rparr>"

text \<open>A creation call returns the context's next handle, a handle it has not handed out
  before, and logs the call made.\<close>

definition fresh :: "(handle \<Rightarrow> event) \<Rightarrow> helper \<Rightarrow> handle \<times> helper" where
  "fresh mk h =
     (let n = nextHandle (gl h)
      in (n, emit (mk n) (h\<lparr>gl := (gl h)\<lparr>nextHandle := Suc n\<rparr>\<rparr>)))"

subsection \<open>The utilities the helper imports\<close>

text \<open>Modelled from the spec: \<open>clear\<close> of ol/obj.js is not under src/. The handler
  "clears all three Resource Cache mappings" with it: it removes every key of the object
  it is given, and makes no call on the rendering context (it is not given one).\<close>

definition clear :: "('k \<rightharpoonup> 'v) \<Rightarrow> ('k \<rightharpoonup> 'v)" where
  "clear object = Map.empty"

text \<open>Modelled from the spec: \<open>create\<close>, \<open>reset\<close>, \<open>scale\<close>, \<open>rotate\<close> and
  \<open>translate\<close> of ol/transform.js are not under src/. A transform starts as the identity,
  and scaling, rotating and translating are "each applied to the accumulated matrix":
  the accumulated transform is multiplied on the right by the elementary one.\<close>

definition createTransform :: transform where
  "createTransform = Transform 1 0 0 1 0 0"

definition resetTransform :: "transform \<Rightarrow> transform" where
  "resetTransform t = Transform 1 0 0 1 0 0"

fun multiply :: "transform \<Rightarrow> transform \<Rightarrow> transform" where
  "multiply (Transform a1 b1 c1 d1 e1 f1) (Transform a2 b2 c2 d2 e2 f2) =
     Transform (a1 * a2 + c1 * b2) (b1 * a2 + d1 * b2)
               (a1 * c2 + c1 * d2) (b1 * c2 + d1 * d2)
               (a1 * e2 + c1 * f2 + e1) (b1 * e2 + d1 * f2 + f1)"

definition scaleTransform :: "transform \<Rightarrow> number \<Rightarrow> number \<Rightarrow> transform" where
  "scaleTransform t x y = multiply t (Transform x 0 0 y 0 0)"

definition rotateTransform :: "transform \<Rightarrow> number \<Rightarrow> transform" where
  "rotateTransform t angle =
     (let c = cos angle; s = sin angle in multiply t (Transform c s (- s) c 0 0))"

definition translateTransform :: "transform \<Rightarrow> number \<Rightarrow> number \<Rightarrow> transform" where
  "translateTransform t dx dy = multiply t (Transform 1 0 0 1 dx dy)"

text \<open>Modelled from the spec: \<open>create\<close> and \<open>fromTransform\<close> of ol/vec/mat4.js are not
  under src/. A transform is expanded into a 4x4 matrix by "embedding the 2D linear part
  and translation into the appropriate matrix cells, remaining cells identity": the six
  cells are written into the matrix given, which starts as the identity.\<close>

definition create :: mat4 where
  "create = [1, 0, 0, 0,  0, 1, 0, 0,  0, 0, 1, 0,  0, 0, 0, 1]"

fun fromTransform :: "mat4 \<Rightarrow> transform \<Rightarrow> mat4" where
  "fromTransform m (Transform a b c d e f) =
     m[0 := a, 1 := b, 4 := c, 5 := d, 12 := e, 13 := f]"

text \<open>The names of the default uniforms (\<open>DefaultUniform\<close>).\<close>

definition PROJECTION_MATRIX :: string where
  "PROJECTION_MATRIX = ''u_projectionMatrix''"

definition OFFSET_SCALE_MATRIX :: string where
  "OFFSET_SCALE_MATRIX = ''u_offsetScaleMatrix''"

definition OFFSET_ROTATION_MATRIX :: string where
  "OFFSET_ROTATION_MATRIX = ''u_offsetRotateMatrix''"

subsection \<open>constructor\<close>

text \<open>The constructor is given the context its canvas returns, the list
  \<open>WEBGL_EXTENSIONS\<close> of ol/webgl.js and its options. It assigns neither
  \<open>uniformLocations_\<close> nor \<open>attribLocations_\<close>. A new canvas element is 300 by 150. The
  listeners it registers are not modelled; the handlers they call are, below. Of the
  other methods, \<open>disposeInternal\<close> is not embedded.\<close>

definition defaultPassOptions :: pass_options where
  "defaultPassOptions =
     \<lparr>scaleRatio = None, vertexShader = None, fragmentShader = None, passUniforms = None\<rparr>"

definition constructor :: "gl_context \<Rightarrow> string list \<Rightarrow> options option \<Rightarrow> helper" where
  "constructor context WEBGL_EXTENSIONS opt_options =
     (let opts = (case opt_options of
                    None \<Rightarrow> \<lparr>optUniforms = None, optPostProcesses = None\<rparr>
                  | Some given \<Rightarrow> given);
          has = (''OES_element_index_uint'' \<in> set WEBGL_EXTENSIONS);
          h0 = \<lparr>canvas = \<lparr>width = 300, height = 150, stylePosition = CssText ''absolute'',
                          styleWidth = CssText [], styleHeight = CssText []\<rparr>,
                gl = context,
                bufferCache = Map.empty,
                shaderCache = Map.empty,
                programCache = Map.empty,
                currentProgram = None,
                hasOESElementIndexUint = has,
                projectionMatrix = createTransform,
                offsetRotateMatrix = createTransform,
                offsetScaleMatrix = createTransform,
                tmpMat4 = create,
                uniformLocations = None,
                attribLocations = None,
                uniforms = [],
                postProcessPasses = [],
                trace = []\<rparr>;
          h1 = (if has then emit (ContextCall (GetExtension ''OES_element_index_uint'')) h0
                else h0);
          h2 = h1\<lparr>uniforms :=
                   (case optUniforms opts of
                      None \<Rightarrow> []
                    | Some us \<Rightarrow> map (\<lambda>(n, v). \<lparr>name = n, uvalue = v, texture = None\<rparr>) us)\<rparr>
      in h2\<lparr>postProcessPasses :=
               (case optPostProcesses opts of
                  Some ps \<Rightarrow> map (\<lambda>(i, po). \<lparr>passIndex = i, passOptions = po\<rparr>) (enumerate 0 ps)
                | None \<Rightarrow> [\<lparr>passIndex = 0, passOptions = defaultPassOptions\<rparr>])\<rparr>)"

subsection \<open>bindBuffer, deleteBuffer\<close>

text \<open>\<open>getUid(buf)\<close> is the field \<open>bufUid\<close>. A cache entry is an object, hence truthy:
  \<open>!bufferCache\<close> holds exactly when the key is absent.\<close>

definition bindBuffer :: "glenum \<Rightarrow> buffer_object \<Rightarrow> helper \<Rightarrow> helper" where
  "bindBuffer target b h =
     (let arr = bufArray b;
          bufferKey = bufUid b
      in case (case bufferCache h bufferKey of
                 Some entry \<Rightarrow> (entry, h)
               | None \<Rightarrow>
                   (case fresh (BufferCall \<circ> CreateBuffer) h of
                      (created, h') \<Rightarrow>
                        (let entry = \<lparr>buf = b, buffer = created\<rparr>
                         in (entry, h'\<lparr>bufferCache := (bufferCache h')(bufferKey \<mapsto> entry)\<rparr>))))
         of (entry, h1) \<Rightarrow>
           (let h2 = emit (BufferCall (BindBuffer target (buffer entry))) h1;
                arrayBuffer =
                  (if target = ARRAY_BUFFER then Some (Float32Array arr)
                   else if target = ELEMENT_ARRAY_BUFFER then
                     Some (if hasOESElementIndexUint h2 then Uint32Array arr
                           else Uint16Array arr)
                   else None)
            in emit (BufferCall (BufferData target arrayBuffer (bufUsage b))) h2))"

text \<open>Reading \<open>bufferCacheEntry.buffer\<close> when the entry is \<open>undefined\<close> throws a
  TypeError; the read happens only when the context is not lost.\<close>

definition deleteBuffer :: "buffer_object \<Rightarrow> helper \<Rightarrow> unit result \<times> helper" where
  "deleteBuffer b h =
     (let bufferKey = bufUid b;
          bufferCacheEntry = bufferCache h bufferKey;
          h1 = emit (ContextCall IsContextLost) h
      in if \<not> contextLost (gl h1) then
           (case bufferCacheEntry of
              None \<Rightarrow> (Throw TypeError, h1)
            | Some entry \<Rightarrow>
                (let h2 = emit (BufferCall (DeleteBuffer (buffer entry))) h1
                 in (Return (), h2\<lparr>bufferCache := (bufferCache h2)(bufferKey := None)\<rparr>)))
         else (Return (), h1\<lparr>bufferCache := (bufferCache h1)(bufferKey := None)\<rparr>))"

subsection \<open>drawElements, finalizeDraw\<close>

definition drawElements :: "number \<Rightarrow> number \<Rightarrow> helper \<Rightarrow> helper" where
  "drawElements start end' h =
     (let elementType = (if hasOESElementIndexUint h then UNSIGNED_INT else UNSIGNED_SHORT);
          elementSize = (if hasOESElementIndexUint h then 4 else 2);
          numItems = end' - start;
          offsetInBytes = start * elementSize
      in emit (ContextCall (DrawElements TRIANGLES numItems elementType offsetInBytes)) h)"

text \<open>The loop of \<open>finalizeDraw\<close> from index \<open>i\<close> on. \<open>postProcessPasses[i + 1] || null\<close>
  is the next pass, or \<open>null\<close> past the end of the array.\<close>

function finalizeDraw_from :: "nat \<Rightarrow> helper \<Rightarrow> helper" where
  "finalizeDraw_from i h =
     (if i < length (postProcessPasses h) then
        finalizeDraw_from (i + 1)
          (emit (PassApply (postProcessPasses h ! i)
                   (if i + 1 < length (postProcessPasses h)
                    then Some (postProcessPasses h ! (i + 1)) else None)) h)
      else h)"
  by pat_completeness auto
termination
  by (relation "measure (\<lambda>(i, h). length (postProcessPasses h) - i)") (auto simp: emit_def)

definition finalizeDraw :: "helper \<Rightarrow> helper" where
  "finalizeDraw h = finalizeDraw_from 0 h"

subsection \<open>useProgram, getUniformLocation, getAttributeLocation\<close>

definition useProgram :: "handle option \<Rightarrow> helper \<Rightarrow> bool \<times> helper" where
  "useProgram program h =
     (if program = currentProgram h then (False, h)
      else (True, (emit (ProgramCall (UseProgram program)) h)
                    \<lparr>currentProgram := program,
                     uniformLocations := Some Map.empty,
                     attribLocations := Some Map.empty\<rparr>))"

text \<open>\<open>!this.uniformLocations_[name]\<close>: the property is missing (\<open>undefined\<close>) or holds
  \<open>null\<close>; a location object is truthy. Reading a property of \<open>undefined\<close> throws.\<close>

definition getUniformLocation :: "string \<Rightarrow> helper \<Rightarrow> location option result \<times> helper" where
  "getUniformLocation nm h =
     (case uniformLocations h of
        None \<Rightarrow> (Throw TypeError, h)
      | Some locations \<Rightarrow>
          (case locations nm of
             Some (Some found) \<Rightarrow> (Return (Some found), h)
           | _ \<Rightarrow>
               (let h1 = emit (UniformCall (GetUniformLocation (currentProgram h) nm)) h;
                    answer = uniformLocationOf (gl h1) (currentProgram h1) nm
                in (Return answer, h1\<lparr>uniformLocations := Some (locations(nm \<mapsto> answer))\<rparr>))))"

text \<open>\<open>!this.attribLocations_[name]\<close>: the property is missing or holds the number 0.\<close>

definition getAttributeLocation :: "string \<Rightarrow> helper \<Rightarrow> int result \<times> helper" where
  "getAttributeLocation nm h =
     (case attribLocations h of
        None \<Rightarrow> (Throw TypeError, h)
      | Some locations \<Rightarrow>
          (let h1 = emit (UniformCall (GetAttribLocation (currentProgram h) nm)) h;
               answer = attribLocationOf (gl h1) (currentProgram h1) nm;
               looked = (Return answer, h1\<lparr>attribLocations := Some (locations(nm \<mapsto> answer))\<rparr>)
           in case locations nm of
                None \<Rightarrow> looked
              | Some found \<Rightarrow> if found = 0 then looked else (Return found, h)))"

subsection \<open>getShader, getProgram\<close>

text \<open>\<open>shaderKey in this.shaderCache_\<close> tests the presence of the key.\<close>

definition getShader :: "shader_object \<Rightarrow> helper \<Rightarrow> handle \<times> helper" where
  "getShader shaderObject h =
     (let shaderKey = shaderUid shaderObject
      in case shaderCache h shaderKey of
           Some cached \<Rightarrow> (cached, h)
         | None \<Rightarrow>
             (case fresh (ProgramCall \<circ> CreateShader (shaderType shaderObject)) h of
                (shader, h1) \<Rightarrow>
                  (let h2 = emit (ProgramCall (ShaderSource shader (shaderSource shaderObject))) h1;
                       h3 = emit (ProgramCall (CompileShader shader)) h2;
                       h4 = emit (ProgramCall (GetShaderParameter shader COMPILE_STATUS)) h3;
                       h5 = (if \<not> compileStatusOf (gl h4) shader then
                               emit (ConsoleError (''Shader compilation failed - log:'' @ [CHR 0x0A]
                                                   @ shaderInfoLogOf (gl h4) shader))
                                 (emit (ProgramCall (GetShaderInfoLog shader)) h4)
                             else h4)
                   in (shader, h5\<lparr>shaderCache := (shaderCache h5)(shaderKey \<mapsto> shader)\<rparr>))))"

definition getProgram :: "shader_object \<Rightarrow> shader_object \<Rightarrow> helper \<Rightarrow> handle \<times> helper" where
  "getProgram fragmentShaderObject vertexShaderObject h =
     (let programKey = shaderUid fragmentShaderObject @ ''/'' @ shaderUid vertexShaderObject
      in case programCache h programKey of
           Some cached \<Rightarrow> (cached, h)
         | None \<Rightarrow>
             (case fresh (ProgramCall \<circ> CreateProgram) h of
                (program, h1) \<Rightarrow>
                  (case getShader fragmentShaderObject h1 of
                     (fragment, h2) \<Rightarrow>
                       (let h3 = emit (ProgramCall (AttachShader program fragment)) h2
                        in case getShader vertexShaderObject h3 of
                             (vertex, h4) \<Rightarrow>
                               (let h5 = emit (ProgramCall (AttachShader program vertex)) h4;
                                    h6 = emit (ProgramCall (LinkProgram program)) h5
                                in (program,
                                    h6\<lparr>programCache := (programCache h6)(programKey \<mapsto> program)\<rparr>))))))"

subsection \<open>Setting uniforms and attributes\<close>

definition setUniformFloatValue :: "string \<Rightarrow> number \<Rightarrow> helper \<Rightarrow> unit result \<times> helper" where
  "setUniformFloatValue uniform v h =
     (case getUniformLocation uniform h of
        (Throw e, h1) \<Rightarrow> (Throw e, h1)
      | (Return found, h1) \<Rightarrow> (Return (), emit (UniformCall (Uniform1f found v)) h1))"

definition setUniformMatrixValue :: "string \<Rightarrow> mat4 \<Rightarrow> helper \<Rightarrow> unit result \<times> helper" where
  "setUniformMatrixValue uniform v h =
     (case getUniformLocation uniform h of
        (Throw e, h1) \<Rightarrow> (Throw e, h1)
      | (Return found, h1) \<Rightarrow>
          (Return (), emit (UniformCall (UniformMatrix4fv found False v)) h1))"

definition enableAttributeArray ::
  "string \<Rightarrow> number \<Rightarrow> glenum \<Rightarrow> number \<Rightarrow> number \<Rightarrow> helper \<Rightarrow> unit result \<times> helper" where
  "enableAttributeArray attribName sz type stride offset h =
     (case getAttributeLocation attribName h of
        (Throw e, h1) \<Rightarrow> (Throw e, h1)
      | (Return found, h1) \<Rightarrow>
          (let h2 = emit (UniformCall (EnableVertexAttribArray found)) h1
           in case getAttributeLocation attribName h2 of
                (Throw e, h3) \<Rightarrow> (Throw e, h3)
              | (Return again, h3) \<Rightarrow>
                  (Return (),
                   emit (UniformCall (VertexAttribPointer again sz type False stride offset)) h3)))"

subsection \<open>applyFrameState\<close>

text \<open>The three transforms are updated in place before the first uniform is set, so they
  hold their new values also when setting a uniform throws. \<open>fromTransform\<close> writes into
  \<open>tmpMat4_\<close> and returns it.\<close>

definition applyFrameState :: "frameState \<Rightarrow> helper \<Rightarrow> unit result \<times> helper" where
  "applyFrameState fs h =
     (let sz = fsSize fs;
          rot = rotation (fsViewState fs);
          res = resolution (fsViewState fs);
          cen = center (fsViewState fs);
          h1 = h\<lparr>projectionMatrix := resetTransform (projectionMatrix h)\<rparr>;
          h2 = h1\<lparr>projectionMatrix :=
                    scaleTransform (projectionMatrix h1) (2 / (res * fst sz)) (2 / (res * snd sz))\<rparr>;
          h3 = h2\<lparr>projectionMatrix := rotateTransform (projectionMatrix h2) (- rot)\<rparr>;
          h4 = h3\<lparr>projectionMatrix :=
                    translateTransform (projectionMatrix h3) (- fst cen) (- snd cen)\<rparr>;
          h5 = h4\<lparr>offsetScaleMatrix := resetTransform (offsetScaleMatrix h4)\<rparr>;
          h6 = h5\<lparr>offsetScaleMatrix :=
                    scaleTransform (offsetScaleMatrix h5) (2 / fst sz) (2 / snd sz)\<rparr>;
          h7 = h6\<lparr>offsetRotateMatrix := resetTransform (offsetRotateMatrix h6)\<rparr>;
          h8 = (if rot \<noteq> 0
                then h7\<lparr>offsetRotateMatrix := rotateTransform (offsetRotateMatrix h7) (- rot)\<rparr>
                else h7);
          h9 = h8\<lparr>tmpMat4 := fromTransform (tmpMat4 h8) (projectionMatrix h8)\<rparr>
      in case setUniformMatrixValue PROJECTION_MATRIX (tmpMat4 h9) h9 of
           (Throw e, h10) \<Rightarrow> (Throw e, h10)
         | (Return _, h10) \<Rightarrow>
             (let h11 = h10\<lparr>tmpMat4 := fromTransform (tmpMat4 h10) (offsetScaleMatrix h10)\<rparr>
              in case setUniformMatrixValue OFFSET_SCALE_MATRIX (tmpMat4 h11) h11 of
                   (Throw e, h12) \<Rightarrow> (Throw e, h12)
                 | (Return _, h12) \<Rightarrow>
                     (let h13 = h12\<lparr>tmpMat4 :=
                                      fromTransform (tmpMat4 h12) (offsetRotateMatrix h12)\<rparr>
                      in setUniformMatrixValue OFFSET_ROTATION_MATRIX (tmpMat4 h13) h13)))"

subsection \<open>handleWebGLContextLost, handleWebGLContextRestored\<close>

definition handleWebGLContextLost :: "helper \<Rightarrow> helper" where
  "handleWebGLContextLost h =
     (let h1 = h\<lparr>bufferCache := clear (bufferCache h)\<rparr>;
          h2 = h1\<lparr>shaderCache := clear (shaderCache h1)\<rparr>;
          h3 = h2\<lparr>programCache := clear (programCache h2)\<rparr>
      in h3\<lparr>currentProgram := None\<rparr>)"

definition handleWebGLContextRestored :: "helper \<Rightarrow> helper" where
  "handleWebGLContextRestored h = h"

subsection \<open>applyUniforms, prepareDraw\<close>

text \<open>The callback of \<open>applyUniforms\<close>, for the uniform at index \<open>i\<close> with the texture
  slot reached; it returns the slot for the next uniform. Its branch for an image value is
  \<open>applyUniforms_image\<close>: a texture handle is an object, hence truthy, and
  \<open>!uniform.texture\<close> holds exactly when none is stored. The calls
  \<open>gl.uniformNf(this.getUniformLocation(uniform.name), ...)\<close> of its other branches are
  \<open>applyUniforms_set\<close>.\<close>

definition texImage2D :: "image \<Rightarrow> texture_call" where
  "texImage2D v =
     (case v of
        ImageData w ht pixels \<Rightarrow>
          TexImage2DData TEXTURE_2D 0 RGBA RGBA w ht 0 UNSIGNED_BYTE (Uint8Array pixels)
      | HTMLCanvasElement element \<Rightarrow>
          TexImage2DCanvas TEXTURE_2D 0 RGBA RGBA UNSIGNED_BYTE element)"

definition applyUniforms_image ::
  "nat \<Rightarrow> nat \<Rightarrow> image \<Rightarrow> helper \<Rightarrow> nat result \<times> helper" where
  "applyUniforms_image i textureSlot v h =
     (let uniform = uniforms h ! i
      in case (case texture uniform of
                 Some cached \<Rightarrow> (cached, h)
               | None \<Rightarrow>
                   (case fresh (TextureCall \<circ> CreateTexture) h of
                      (created, h') \<Rightarrow>
                        (created,
                         h'\<lparr>uniforms :=
                              (uniforms h')[i := uniform\<lparr>texture := Some created\<rparr>]\<rparr>)))
         of (tex, h1) \<Rightarrow>
           (let h2 = emit (TextureCall (ActiveTexture textureSlot)) h1;
                h3 = emit (TextureCall (BindTexture TEXTURE_2D (Some tex))) h2;
                h4 = emit (TextureCall (TexParameteri TEXTURE_2D TEXTURE_MIN_FILTER LINEAR)) h3;
                h5 = emit (TextureCall (TexParameteri TEXTURE_2D TEXTURE_WRAP_S CLAMP_TO_EDGE)) h4;
                h6 = emit (TextureCall (TexParameteri TEXTURE_2D TEXTURE_WRAP_T CLAMP_TO_EDGE)) h5;
                h7 = emit (TextureCall (texImage2D v)) h6
            in case getUniformLocation (name uniform) h7 of
                 (Throw e, h8) \<Rightarrow> (Throw e, h8)
               | (Return found, h8) \<Rightarrow>
                   (Return (textureSlot + 1),
                    emit (UniformCall (Uniform1i found textureSlot)) h8)))"

definition applyUniforms_set ::
  "nat \<Rightarrow> nat \<Rightarrow> (location option \<Rightarrow> uniform_call) \<Rightarrow> helper \<Rightarrow> nat result \<times> helper" where
  "applyUniforms_set i textureSlot call h =
     (case getUniformLocation (name (uniforms h ! i)) h of
        (Throw e, h1) \<Rightarrow> (Throw e, h1)
      | (Return found, h1) \<Rightarrow> (Return textureSlot, emit (UniformCall (call found)) h1))"

definition applyUniform :: "nat \<Rightarrow> nat \<Rightarrow> helper \<Rightarrow> nat result \<times> helper" where
  "applyUniform i textureSlot h =
     (case (case uvalue (uniforms h ! i) of
              Producer produced \<Rightarrow> produced
            | Static given \<Rightarrow> given) of
        ImageValue v \<Rightarrow> applyUniforms_image i textureSlot v h
      | ArrayValue xs \<Rightarrow>
          (if length xs = 2 then
             applyUniforms_set i textureSlot (\<lambda>found. Uniform2f found (xs ! 0) (xs ! 1)) h
           else if length xs = 3 then
             applyUniforms_set i textureSlot
               (\<lambda>found. Uniform3f found (xs ! 0) (xs ! 1) (xs ! 2)) h
           else if length xs = 4 then
             applyUniforms_set i textureSlot
               (\<lambda>found. Uniform4f found (xs ! 0) (xs ! 1) (xs ! 2) (xs ! 3)) h
           else (Return textureSlot, h))
      | NumberValue x \<Rightarrow> applyUniforms_set i textureSlot (\<lambda>found. Uniform1f found x) h
      | OtherValue \<Rightarrow> (Return textureSlot, h))"

text \<open>\<open>this.uniforms_.forEach\<close>: \<open>k\<close> elements remain, the next one at index \<open>i\<close>. An
  exception thrown by the callback ends the iteration.\<close>

fun applyUniforms_forEach :: "nat \<Rightarrow> nat \<Rightarrow> nat \<Rightarrow> helper \<Rightarrow> unit result \<times> helper" where
  "applyUniforms_forEach 0 i textureSlot h = (Return (), h)"
| "applyUniforms_forEach (Suc k) i textureSlot h =
     (case applyUniform i textureSlot h of
        (Throw e, h1) \<Rightarrow> (Throw e, h1)
      | (Return nextSlot, h1) \<Rightarrow> applyUniforms_forEach k (Suc i) nextSlot h1)"

definition applyUniforms :: "helper \<Rightarrow> unit result \<times> helper" where
  "applyUniforms h = applyUniforms_forEach (length (uniforms h)) 0 0 h"

text \<open>The loop \<open>for (let i = length - 1; i >= 0; i--)\<close> of \<open>prepareDraw\<close>; the first
  argument is \<open>i + 1\<close>, so that the loop ends at 0.\<close>

fun prepareDraw_loop :: "nat \<Rightarrow> number \<times> number \<Rightarrow> number \<Rightarrow> helper \<Rightarrow> helper" where
  "prepareDraw_loop 0 sz pixelRatio h = h"
| "prepareDraw_loop (Suc i) sz pixelRatio h =
     prepareDraw_loop i sz pixelRatio (emit (PassInit (postProcessPasses h ! i) sz pixelRatio) h)"

definition prepareDraw :: "number \<times> number \<Rightarrow> number \<Rightarrow> helper \<Rightarrow> unit result \<times> helper" where
  "prepareDraw sz pixelRatio h =
     (let h1 = h\<lparr>canvas := (canvas h)\<lparr>width := fst sz * pixelRatio,
                                     height := snd sz * pixelRatio,
                                     styleWidth := Px (fst sz),
                                     styleHeight := Px (snd sz)\<rparr>\<rparr>;
          h2 = emit (ProgramCall (UseProgram (currentProgram h1))) h1;
          h3 = prepareDraw_loop (length (postProcessPasses h2)) sz pixelRatio h2;
          h4 = emit (TextureCall (BindTexture TEXTURE_2D None)) h3;
          h5 = emit (ContextCall (ClearColor 0 0 0 0)) h4;
          h6 = emit (ContextCall (Clear COLOR_BUFFER_BIT)) h5;
          h7 = emit (ContextCall (Enable BLEND)) h6;
          h8 = emit (ContextCall (BlendFunc ONE ONE_MINUS_SRC_ALPHA)) h7
      in applyUniforms h8)"

subsection \<open>createTextureInternal, createEmptyTexture, createTexture\<close>

text \<open>A wrap mode that is not given is \<open>undefined\<close>, here \<open>None\<close>. The image given to
  \<open>createTexture\<close> is an element of the page.\<close>

definition createTextureInternal ::
  "glenum option \<Rightarrow> glenum option \<Rightarrow> helper \<Rightarrow> handle \<times> helper" where
  "createTextureInternal opt_wrapS opt_wrapT h =
     (case fresh (TextureCall \<circ> CreateTexture) h of
        (created, h1) \<Rightarrow>
          (let h2 = emit (TextureCall (BindTexture TEXTURE_2D (Some created))) h1;
               h3 = emit (TextureCall (TexParameteri TEXTURE_2D TEXTURE_MAG_FILTER LINEAR)) h2;
               h4 = emit (TextureCall (TexParameteri TEXTURE_2D TEXTURE_MIN_FILTER LINEAR)) h3;
               h5 = (case opt_wrapS of
                       Some wrapS \<Rightarrow>
                         emit (TextureCall (TexParameteri TEXTURE_2D TEXTURE_WRAP_S wrapS)) h4
                     | None \<Rightarrow> h4);
               h6 = (case opt_wrapT of
                       Some wrapT \<Rightarrow>
                         emit (TextureCall (TexParameteri TEXTURE_2D TEXTURE_WRAP_T wrapT)) h5
                     | None \<Rightarrow> h5)
           in (created, h6)))"

definition createEmptyTexture ::
  "number \<Rightarrow> number \<Rightarrow> glenum option \<Rightarrow> glenum option \<Rightarrow> helper \<Rightarrow> handle \<times> helper" where
  "createEmptyTexture w ht opt_wrapS opt_wrapT h =
     (case createTextureInternal opt_wrapS opt_wrapT h of
        (created, h1) \<Rightarrow>
          (created,
           emit (TextureCall (TexImage2DNull TEXTURE_2D 0 RGBA w ht 0 RGBA UNSIGNED_BYTE)) h1))"

definition createTexture ::
  "nat \<Rightarrow> glenum option \<Rightarrow> glenum option \<Rightarrow> helper \<Rightarrow> handle \<times> helper" where
  "createTexture element opt_wrapS opt_wrapT h =
     (case createTextureInternal opt_wrapS opt_wrapT h of
        (created, h1) \<Rightarrow>
          (created,
           emit (TextureCall (TexImage2DCanvas TEXTURE_2D 0 RGBA RGBA UNSIGNED_BYTE element)) h1))"

subsection \<open>Reading traces\<close>

text \<open>The events appended to the trace between two states of the helper.\<close>

definition issued :: "helper \<Rightarrow> helper \<Rightarrow> event list" where
  "issued h h' = drop (length (trace h)) (trace h')"

text \<open>The uploads (\<open>bufferData\<close> calls) of a trace: target, data and usage.\<close>

fun uploads :: "event list \<Rightarrow> (glenum \<times> typed_array option \<times> glenum) list" where
  "uploads [] = []"
| "uploads (BufferCall (BufferData target d usage) # es) = (target, d, usage) # uploads es"
| "uploads (e # es) = uploads es"

text \<open>The calls on post-processing passes, and the calls about uniforms and textures.\<close>

fun isPassCall :: "event \<Rightarrow> bool" where
  "isPassCall (PassInit p sz pixelRatio) = True"
| "isPassCall (PassApply p target) = True"
| "isPassCall e = False"

fun isUniformOrTextureCall :: "event \<Rightarrow> bool" where
  "isUniformOrTextureCall (UniformCall c) = True"
| "isUniformOrTextureCall (TextureCall c) = True"
| "isUniformOrTextureCall e = False"

text \<open>The value \<open>applyUniforms\<close> computes for a custom uniform, and whether it takes the
  branch for images on it.\<close>

definition uniformValue :: "custom_uniform \<Rightarrow> uniform_value" where
  "uniformValue u = (case uvalue u of Producer produced \<Rightarrow> produced | Static given \<Rightarrow> given)"

definition imageValued :: "custom_uniform \<Rightarrow> bool" where
  "imageValued u = (case uniformValue u of ImageValue v \<Rightarrow> True | _ \<Rightarrow> False)"

text \<open>Both location maps are still \<open>undefined\<close>.\<close>

definition mapsUndefined :: "helper \<Rightarrow> bool" where
  "mapsUndefined h = (uniformLocations h = None \<and> attribLocations h = None)"

subsection \<open>Reachable helpers\<close>

text \<open>Every handle in a cache has been handed out by the context.\<close>

definition handlesAllocated :: "helper \<Rightarrow> bool" where
  "handlesAllocated h =
     ((\<forall>k entry. bufferCache h k = Some entry \<longrightarrow> buffer entry < nextHandle (gl h))
      \<and> (\<forall>k shader. shaderCache h k = Some shader \<longrightarrow> shader < nextHandle (gl h))
      \<and> (\<forall>k program. programCache h k = Some program \<longrightarrow> program < nextHandle (gl h)))"

text \<open>The helpers that arise from a constructed helper by calls of its methods, by the
  context's getting lost or restored, and by a context that hands out handles to others.\<close>

inductive reachable :: "helper \<Rightarrow> bool" where
  constructed: "reachable (constructor ctx extensions opt_options)"
| lost: "reachable h \<Longrightarrow> reachable (h\<lparr>gl := (gl h)\<lparr>contextLost := flag\<rparr>\<rparr>)"
| handed: "reachable h \<Longrightarrow> reachable (h\<lparr>gl := (gl h)\<lparr>nextHandle := nextHandle (gl h) + n\<rparr>\<rparr>)"
| bindBuffer: "reachable h \<Longrightarrow> reachable (bindBuffer target b h)"
| deleteBuffer: "reachable h \<Longrightarrow> reachable (snd (deleteBuffer b h))"
| prepareDraw: "reachable h \<Longrightarrow> reachable (snd (prepareDraw sz pixelRatio h))"
| drawElements: "reachable h \<Longrightarrow> reachable (drawElements start e h)"
| finalizeDraw: "reachable h \<Longrightarrow> reachable (finalizeDraw h)"
| applyFrameState: "reachable h \<Longrightarrow> reachable (snd (applyFrameState fs h))"
| getShader: "reachable h \<Longrightarrow> reachable (snd (getShader s h))"
| useProgram: "reachable h \<Longrightarrow> reachable (snd (useProgram program h))"
| getProgram: "reachable h \<Longrightarrow> reachable (snd (getProgram f v h))"
| getUniformLocation: "reachable h \<Longrightarrow> reachable (snd (getUniformLocation nm h))"
| getAttributeLocation: "reachable h \<Longrightarrow> reachable (snd (getAttributeLocation nm h))"
| setUniformFloatValue: "reachable h \<Longrightarrow> reachable (snd (setUniformFloatValue nm x h))"
| setUniformMatrixValue: "reachable h \<Longrightarrow> reachable (snd (setUniformMatrixValue nm m h))"
| enableAttributeArray:
    "reachable h \<Longrightarrow> reachable (snd (enableAttributeArray nm asize type stride offset h))"
| handleWebGLContextLost: "reachable h \<Longrightarrow> reachable (handleWebGLContextLost h)"
| handleWebGLContextRestored: "reachable h \<Longrightarrow> reachable (handleWebGLContextRestored h)"
| applyUniforms: "reachable h \<Longrightarrow> reachable (snd (applyUniforms h))"
| createEmptyTexture: "reachable h \<Longrightarrow> reachable (snd (createEmptyTexture w ht wrapS wrapT h))"
| createTexture: "reachable h \<Longrightarrow> reachable (snd (createTexture element wrapS wrapT h))"

subsection \<open>An example helper\<close>

text \<open>A context that resolves no uniform name and answers 0 for every attribute name, a
  buffer object, and the helper constructed on that context with no options.\<close>

definition exampleContext :: gl_context where
  "exampleContext =
     \<lparr>nextHandle = 0, contextLost = False,
      uniformLocationOf = (\<lambda>program nm. None),
      attribLocationOf = (\<lambda>program nm. 0),
      compileStatusOf = (\<lambda>shader. True),
      shaderInfoLogOf = (\<lambda>shader. [])\<rparr>"

definition exampleBuffer :: buffer_object where
  "exampleBuffer = \<lparr>bufUid = ''1'', bufArray = [0, 1, 2], bufUsage = GLenum 35044\<rparr>"

definition exampleHelper :: helper where
  "exampleHelper = constructor exampleContext [] None"

definition exampleShader :: shader_object where
  "exampleShader =
     \<lparr>shaderUid = ''2'', shaderType = GLenum 35632, shaderSource = ''void main(void) {}''\<rparr>"

definition exampleVertex :: shader_object where
  "exampleVertex =
     \<lparr>shaderUid = ''3'', shaderType = GLenum 35633, shaderSource = ''void main(void) {}''\<rparr>"

text \<open>The example helper after a buffer has been bound and a program acquired.\<close>

definition exampleLoaded :: helper where
  "exampleLoaded =
     snd (getProgram exampleShader exampleVertex
            (bindBuffer ARRAY_BUFFER exampleBuffer exampleHelper))"

text \<open>The example helper after a program has been put to use; after a buffer has been
  bound; and a helper whose context has been lost.\<close>

definition exampleBound :: helper where
  "exampleBound = snd (useProgram (Some 1) exampleHelper)"

definition exampleBufferBound :: helper where
  "exampleBufferBound = bindBuffer ARRAY_BUFFER exampleBuffer exampleHelper"

definition loseContext :: "helper \<Rightarrow> helper" where
  "loseContext h = h\<lparr>gl := (gl h)\<lparr>contextLost := True\<rparr>\<rparr>"

text \<open>A helper with an image-valued custom uniform, after a program has been put to use
  and a first frame prepared.\<close>

definition exampleOptions :: options where
  "exampleOptions =
     \<lparr>optUniforms = Some [(''u_image'', Static (ImageValue (HTMLCanvasElement 0)))],
      optPostProcesses = None\<rparr>"

definition exampleFramed :: helper where
  "exampleFramed =
     snd (prepareDraw (100, 100) 1
            (snd (useProgram (Some 1) (constructor exampleContext [] (Some exampleOptions)))))"

section \<open>Properties\<close>

subsection \<open>Traces and frames\<close>

lemma trace_emit: "trace (emit e h) = trace h @ [e]"
  by (simp add: emit_def)

lemma uploads_append: "uploads (xs @ ys) = uploads xs @ uploads ys"
  by (induction xs rule: uploads.induct) simp_all

lemma getUniformLocation_frame:
  assumes "getUniformLocation nm h = (r, h')"
  shows "projectionMatrix h' = projectionMatrix h"
    and "offsetScaleMatrix h' = offsetScaleMatrix h"
    and "offsetRotateMatrix h' = offsetRotateMatrix h"
    and "tmpMat4 h' = tmpMat4 h"
    and "uniforms h' = uniforms h"
    and "postProcessPasses h' = postProcessPasses h"
    and "attribLocations h' = attribLocations h"
    and "gl h' = gl h"
    and "currentProgram h' = currentProgram h"
    and "bufferCache h' = bufferCache h"
    and "shaderCache h' = shaderCache h"
    and "programCache h' = programCache h"
    and "hasOESElementIndexUint h' = hasOESElementIndexUint h"
    and "canvas h' = canvas h"
  using assms
  by (auto simp: getUniformLocation_def emit_def Let_def split: option.splits)

lemma setUniformMatrixValue_frame:
  assumes "setUniformMatrixValue u v h = (r, h')"
  shows "projectionMatrix h' = projectionMatrix h"
    and "offsetScaleMatrix h' = offsetScaleMatrix h"
    and "offsetRotateMatrix h' = offsetRotateMatrix h"
    and "tmpMat4 h' = tmpMat4 h"
    and "uniforms h' = uniforms h"
    and "postProcessPasses h' = postProcessPasses h"
    and "attribLocations h' = attribLocations h"
    and "gl h' = gl h"
    and "currentProgram h' = currentProgram h"
    and "bufferCache h' = bufferCache h"
    and "shaderCache h' = shaderCache h"
    and "programCache h' = programCache h"
    and "hasOESElementIndexUint h' = hasOESElementIndexUint h"
    and "canvas h' = canvas h"
  using assms
  by (auto simp: setUniformMatrixValue_def emit_def
      split: prod.splits result.splits dest: getUniformLocation_frame)

lemmas setUniformMatrixValue_snd = setUniformMatrixValue_frame [OF surjective_pairing]

subsection \<open>The uniform applicator\<close>

lemma getUniformLocation_effect:
  assumes "getUniformLocation nm h = (r, h')"
  shows "uniformLocations h = None \<Longrightarrow> r = Throw TypeError \<and> h' = h"
    and "uniformLocations h \<noteq> None \<Longrightarrow> uniformLocations h' \<noteq> None \<and> (\<exists>found. r = Return found)"
    and "\<exists>evs. trace h' = trace h @ evs \<and> (\<forall>e\<in>set evs. \<exists>c. e = UniformCall c)"
  using assms
  by (auto simp: getUniformLocation_def emit_def Let_def split: option.splits)

lemma applyUniforms_set_effect:
  assumes "applyUniforms_set i s call h = (r, h')"
  shows "attribLocations h' = attribLocations h"
    and "postProcessPasses h' = postProcessPasses h"
    and "uniforms h' = uniforms h"
    and "gl h' = gl h"
    and "uniformLocations h = None \<Longrightarrow> uniformLocations h' = None"
    and "uniformLocations h \<noteq> None \<Longrightarrow> uniformLocations h' \<noteq> None \<and> (\<exists>slot. r = Return slot)"
    and "\<exists>evs. trace h' = trace h @ evs \<and> (\<forall>e\<in>set evs. \<exists>c. e = UniformCall c)"
proof -
  obtain r1 h1 where g: "getUniformLocation (name (uniforms h ! i)) h = (r1, h1)"
    by (cases "getUniformLocation (name (uniforms h ! i)) h")
  note f = getUniformLocation_frame [OF g] and e = getUniformLocation_effect [OF g]
  from e(3) obtain evs where evs: "trace h1 = trace h @ evs" "\<forall>e\<in>set evs. \<exists>c. e = UniformCall c"
    by blast
  show "attribLocations h' = attribLocations h" "postProcessPasses h' = postProcessPasses h"
    "uniforms h' = uniforms h" "gl h' = gl h"
    using assms g f by (auto simp: applyUniforms_set_def emit_def split: result.splits)
  show "uniformLocations h = None \<Longrightarrow> uniformLocations h' = None"
    using assms g e(1) by (auto simp: applyUniforms_set_def emit_def split: result.splits)
  show "uniformLocations h \<noteq> None \<Longrightarrow> uniformLocations h' \<noteq> None \<and> (\<exists>slot. r = Return slot)"
    using assms g e(2) by (auto simp: applyUniforms_set_def emit_def split: result.splits)
  show "\<exists>evs. trace h' = trace h @ evs \<and> (\<forall>e\<in>set evs. \<exists>c. e = UniformCall c)"
    using assms g evs by (auto simp: applyUniforms_set_def emit_def split: result.splits)
qed


lemma applyUniforms_image_cached:
  assumes "texture (uniforms h ! i) = Some t"
  shows "applyUniforms_image i s v h =
     (case getUniformLocation (name (uniforms h ! i))
             (h\<lparr>trace := trace h @
                [TextureCall (ActiveTexture s),
                 TextureCall (BindTexture TEXTURE_2D (Some t)),
                 TextureCall (TexParameteri TEXTURE_2D TEXTURE_MIN_FILTER LINEAR),
                 TextureCall (TexParameteri TEXTURE_2D TEXTURE_WRAP_S CLAMP_TO_EDGE),
                 TextureCall (TexParameteri TEXTURE_2D TEXTURE_WRAP_T CLAMP_TO_EDGE),
                 TextureCall (texImage2D v)]\<rparr>) of
        (Throw e, h8) \<Rightarrow> (Throw e, h8)
      | (Return found, h8) \<Rightarrow>
          (Return (s + 1), emit (UniformCall (Uniform1i found s)) h8))"
  using assms by (simp add: applyUniforms_image_def Let_def emit_def)

lemma applyUniforms_image_created:
  assumes "texture (uniforms h ! i) = None"
  shows "applyUniforms_image i s v h =
     (case getUniformLocation (name (uniforms h ! i))
             (h\<lparr>gl := (gl h)\<lparr>nextHandle := Suc (nextHandle (gl h))\<rparr>,
                uniforms := (uniforms h)
                  [i := (uniforms h ! i)\<lparr>texture := Some (nextHandle (gl h))\<rparr>],
                trace := trace h @
                [TextureCall (CreateTexture (nextHandle (gl h))),
                 TextureCall (ActiveTexture s),
                 TextureCall (BindTexture TEXTURE_2D (Some (nextHandle (gl h)))),
                 TextureCall (TexParameteri TEXTURE_2D TEXTURE_MIN_FILTER LINEAR),
                 TextureCall (TexParameteri TEXTURE_2D TEXTURE_WRAP_S CLAMP_TO_EDGE),
                 TextureCall (TexParameteri TEXTURE_2D TEXTURE_WRAP_T CLAMP_TO_EDGE),
                 TextureCall (texImage2D v)]\<rparr>) of
        (Throw e, h8) \<Rightarrow> (Throw e, h8)
      | (Return found, h8) \<Rightarrow>
          (Return (s + 1), emit (UniformCall (Uniform1i found s)) h8))"
  using assms by (simp add: applyUniforms_image_def Let_def emit_def fresh_def)

lemma applyUniforms_image_effect:
  assumes "applyUniforms_image i s v h = (r, h')"
  shows "attribLocations h' = attribLocations h"
    and "postProcessPasses h' = postProcessPasses h"
    and "uniformLocations h = None \<Longrightarrow> uniformLocations h' = None"
    and "uniformLocations h \<noteq> None \<Longrightarrow> uniformLocations h' \<noteq> None \<and> (\<exists>slot. r = Return slot)"
    and "length (uniforms h') = length (uniforms h)"
    and "j \<noteq> i \<Longrightarrow> uniforms h' ! j = uniforms h ! j"
    and "\<exists>evs. trace h' = trace h @ evs \<and> (\<forall>e\<in>set evs. isUniformOrTextureCall e)"
    and "texture (uniforms h ! i) = Some t \<Longrightarrow>
           uniforms h' = uniforms h \<and> gl h' = gl h
           \<and> TextureCall (BindTexture TEXTURE_2D (Some t)) \<in> set (issued h h')
           \<and> (\<forall>n. TextureCall (CreateTexture n) \<notin> set (issued h h'))"
proof -
  let ?nm = "name (uniforms h ! i)"
  obtain hm where hm: "applyUniforms_image i s v h =
     (case getUniformLocation ?nm hm of
        (Throw e, h8) \<Rightarrow> (Throw e, h8)
      | (Return found, h8) \<Rightarrow>
          (Return (s + 1), emit (UniformCall (Uniform1i found s)) h8))"
    and hm_frame: "attribLocations hm = attribLocations h" "postProcessPasses hm = postProcessPasses h"
      "uniformLocations hm = uniformLocations h"
      "length (uniforms hm) = length (uniforms h)"
      "\<And>j. j \<noteq> i \<Longrightarrow> uniforms hm ! j = uniforms h ! j"
    and hm_trace: "\<exists>evs. trace hm = trace h @ evs \<and> (\<forall>e\<in>set evs. isUniformOrTextureCall e)"
    and hm_cached: "\<And>t. texture (uniforms h ! i) = Some t \<Longrightarrow>
        uniforms hm = uniforms h \<and> gl hm = gl h
        \<and> (\<exists>evs. trace hm = trace h @ evs
              \<and> TextureCall (BindTexture TEXTURE_2D (Some t)) \<in> set evs
              \<and> (\<forall>n. TextureCall (CreateTexture n) \<notin> set evs))"
  proof (cases "texture (uniforms h ! i)")
    case None
    show ?thesis
      by (rule that [OF applyUniforms_image_created [OF None]])
        (simp_all add: None texImage2D_def split: image.splits)
  next
    case (Some t)
    show ?thesis
      by (rule that [OF applyUniforms_image_cached [OF Some]])
        (simp_all add: Some texImage2D_def split: image.splits)
  qed
  obtain r1 h8 where g: "getUniformLocation ?nm hm = (r1, h8)"
    by (cases "getUniformLocation ?nm hm")
  note f = getUniformLocation_frame [OF g] and e = getUniformLocation_effect [OF g]
  from e(3) obtain evs8 where evs8: "trace h8 = trace hm @ evs8"
      "\<forall>e\<in>set evs8. \<exists>c. e = UniformCall c"
    by blast
  from hm_trace obtain evsm where evsm: "trace hm = trace h @ evsm"
      "\<forall>e\<in>set evsm. isUniformOrTextureCall e"
    by blast
  have res: "(r, h') = (case r1 of
        Throw e \<Rightarrow> (Throw e, h8)
      | Return found \<Rightarrow>
          (Return (s + 1), h8\<lparr>trace := trace h8 @ [UniformCall (Uniform1i found s)]\<rparr>))"
    using assms hm g by (simp add: emit_def split: result.splits)
  show "attribLocations h' = attribLocations h" "postProcessPasses h' = postProcessPasses h"
    "length (uniforms h') = length (uniforms h)"
    using res f hm_frame by (auto split: result.splits)
  show "j \<noteq> i \<Longrightarrow> uniforms h' ! j = uniforms h ! j"
    using res f hm_frame by (auto split: result.splits)
  show "uniformLocations h = None \<Longrightarrow> uniformLocations h' = None"
    using res e(1) hm_frame by (auto split: result.splits)
  show "uniformLocations h \<noteq> None \<Longrightarrow> uniformLocations h' \<noteq> None \<and> (\<exists>slot. r = Return slot)"
    using res e(2) hm_frame by (auto split: result.splits)
  show "\<exists>evs. trace h' = trace h @ evs \<and> (\<forall>e\<in>set evs. isUniformOrTextureCall e)"
    using res evs8 evsm by (auto split: result.splits)
  show "uniforms h' = uniforms h \<and> gl h' = gl h
           \<and> TextureCall (BindTexture TEXTURE_2D (Some t)) \<in> set (issued h h')
           \<and> (\<forall>n. TextureCall (CreateTexture n) \<notin> set (issued h h'))"
    if "texture (uniforms h ! i) = Some t"
    using res evs8 hm_cached [OF that] f by (auto simp: issued_def split: result.splits)
qed


lemma applyUniform_cases:
  "applyUniform i s h =
     (case uniformValue (uniforms h ! i) of
        ImageValue v \<Rightarrow> applyUniforms_image i s v h
      | ArrayValue xs \<Rightarrow>
          (if length xs = 2 then
             applyUniforms_set i s (\<lambda>found. Uniform2f found (xs ! 0) (xs ! 1)) h
           else if length xs = 3 then
             applyUniforms_set i s (\<lambda>found. Uniform3f found (xs ! 0) (xs ! 1) (xs ! 2)) h
           else if length xs = 4 then
             applyUniforms_set i s
               (\<lambda>found. Uniform4f found (xs ! 0) (xs ! 1) (xs ! 2) (xs ! 3)) h
           else (Return s, h))
      | NumberValue x \<Rightarrow> applyUniforms_set i s (\<lambda>found. Uniform1f found x) h
      | OtherValue \<Rightarrow> (Return s, h))"
  by (simp add: applyUniform_def uniformValue_def)

lemma applyUniform_branch:
  assumes "applyUniform i s h = (r, h')"
  obtains (image) v where "uniformValue (uniforms h ! i) = ImageValue v"
      and "applyUniforms_image i s v h = (r, h')"
    | (set) call where "\<not> imageValued (uniforms h ! i)"
      and "applyUniforms_set i s call h = (r, h')"
    | (skip) "\<not> imageValued (uniforms h ! i)" and "r = Return s" and "h' = h"
proof (cases "uniformValue (uniforms h ! i)")
  case (ImageValue v)
  with assms have "applyUniforms_image i s v h = (r, h')"
    by (simp add: applyUniform_cases)
  with ImageValue show ?thesis by (rule image)
next
  case (ArrayValue xs)
  then have ni: "\<not> imageValued (uniforms h ! i)"
    by (simp add: imageValued_def)
  consider "length xs = 2" | "length xs = 3" | "length xs = 4"
    | "length xs \<noteq> 2" "length xs \<noteq> 3" "length xs \<noteq> 4"
    by blast
  then show ?thesis
  proof cases
    case 1
    with assms ArrayValue
    have "applyUniforms_set i s (\<lambda>found. Uniform2f found (xs ! 0) (xs ! 1)) h = (r, h')"
      by (simp add: applyUniform_cases)
    with ni show ?thesis by (rule set)
  next
    case 2
    with assms ArrayValue
    have "applyUniforms_set i s (\<lambda>found. Uniform3f found (xs ! 0) (xs ! 1) (xs ! 2)) h = (r, h')"
      by (simp add: applyUniform_cases)
    with ni show ?thesis by (rule set)
  next
    case 3
    with assms ArrayValue
    have "applyUniforms_set i s
        (\<lambda>found. Uniform4f found (xs ! 0) (xs ! 1) (xs ! 2) (xs ! 3)) h = (r, h')"
      by (simp add: applyUniform_cases)
    with ni show ?thesis by (rule set)
  next
    case 4
    with assms ArrayValue have "r = Return s" "h' = h"
      by (simp_all add: applyUniform_cases)
    with ni show ?thesis by (rule skip)
  qed
next
  case (NumberValue x)
  then have ni: "\<not> imageValued (uniforms h ! i)"
    by (simp add: imageValued_def)
  from assms NumberValue
  have "applyUniforms_set i s (\<lambda>found. Uniform1f found x) h = (r, h')"
    by (simp add: applyUniform_cases)
  with ni show ?thesis by (rule set)
next
  case OtherValue
  then have ni: "\<not> imageValued (uniforms h ! i)"
    by (simp add: imageValued_def)
  from assms OtherValue have "r = Return s" "h' = h"
    by (simp_all add: applyUniform_cases)
  with ni show ?thesis by (rule skip)
qed

lemma applyUniform_effect:
  assumes "applyUniform i s h = (r, h')"
  shows "attribLocations h' = attribLocations h"
    and "postProcessPasses h' = postProcessPasses h"
    and "uniformLocations h = None \<Longrightarrow> uniformLocations h' = None"
    and "uniformLocations h \<noteq> None \<Longrightarrow> uniformLocations h' \<noteq> None \<and> (\<exists>slot. r = Return slot)"
    and "length (uniforms h') = length (uniforms h)"
    and "j \<noteq> i \<Longrightarrow> uniforms h' ! j = uniforms h ! j"
    and "\<exists>evs. trace h' = trace h @ evs \<and> (\<forall>e\<in>set evs. isUniformOrTextureCall e)"
    and "texture (uniforms h ! i) = Some t \<or> \<not> imageValued (uniforms h ! i) \<Longrightarrow>
           uniforms h' = uniforms h \<and> gl h' = gl h
           \<and> (\<forall>n. TextureCall (CreateTexture n) \<notin> set (issued h h'))"
    and "texture (uniforms h ! i) = Some t \<Longrightarrow> imageValued (uniforms h ! i) \<Longrightarrow>
           TextureCall (BindTexture TEXTURE_2D (Some t)) \<in> set (issued h h')"
proof -
  have all: "attribLocations h' = attribLocations h
    \<and> postProcessPasses h' = postProcessPasses h
    \<and> (uniformLocations h = None \<longrightarrow> uniformLocations h' = None)
    \<and> (uniformLocations h \<noteq> None \<longrightarrow> uniformLocations h' \<noteq> None \<and> (\<exists>slot. r = Return slot))
    \<and> length (uniforms h') = length (uniforms h)
    \<and> (j \<noteq> i \<longrightarrow> uniforms h' ! j = uniforms h ! j)
    \<and> (\<exists>evs. trace h' = trace h @ evs \<and> (\<forall>e\<in>set evs. isUniformOrTextureCall e))
    \<and> (texture (uniforms h ! i) = Some t \<or> \<not> imageValued (uniforms h ! i) \<longrightarrow>
           uniforms h' = uniforms h \<and> gl h' = gl h
           \<and> (\<forall>n. TextureCall (CreateTexture n) \<notin> set (issued h h')))
    \<and> (texture (uniforms h ! i) = Some t \<longrightarrow> imageValued (uniforms h ! i) \<longrightarrow>
           TextureCall (BindTexture TEXTURE_2D (Some t)) \<in> set (issued h h'))"
  using assms
  proof (cases rule: applyUniform_branch)
    case (image v)
    then have iv: "imageValued (uniforms h ! i)"
      by (simp add: imageValued_def)
    show ?thesis
      using applyUniforms_image_effect [OF image(2)] iv by auto
  next
    case (set call)
    from applyUniforms_set_effect(7) [OF set(2)] obtain evs
      where evs: "trace h' = trace h @ evs" "\<forall>e\<in>set evs. \<exists>c. e = UniformCall c"
      by blast
    then have "\<forall>e\<in>set evs. isUniformOrTextureCall e" "\<forall>n. TextureCall (CreateTexture n) \<notin> set evs"
      by auto
    then show ?thesis
      using applyUniforms_set_effect(1-6) [OF set(2)] set(1) evs(1)
      by (auto simp: issued_def)
  next
    case skip
    then show ?thesis by (simp add: issued_def)
  qed
  show "attribLocations h' = attribLocations h"
    and "postProcessPasses h' = postProcessPasses h"
    and "uniformLocations h = None \<Longrightarrow> uniformLocations h' = None"
    and "uniformLocations h \<noteq> None \<Longrightarrow> uniformLocations h' \<noteq> None \<and> (\<exists>slot. r = Return slot)"
    and "length (uniforms h') = length (uniforms h)"
    and "j \<noteq> i \<Longrightarrow> uniforms h' ! j = uniforms h ! j"
    and "\<exists>evs. trace h' = trace h @ evs \<and> (\<forall>e\<in>set evs. isUniformOrTextureCall e)"
    and "texture (uniforms h ! i) = Some t \<or> \<not> imageValued (uniforms h ! i) \<Longrightarrow>
           uniforms h' = uniforms h \<and> gl h' = gl h
           \<and> (\<forall>n. TextureCall (CreateTexture n) \<notin> set (issued h h'))"
    and "texture (uniforms h ! i) = Some t \<Longrightarrow> imageValued (uniforms h ! i) \<Longrightarrow>
           TextureCall (BindTexture TEXTURE_2D (Some t)) \<in> set (issued h h')"
    using all by blast+
qed

lemma applyUniforms_forEach_frame:
  "attribLocations (snd (applyUniforms_forEach k i s h)) = attribLocations h
   \<and> postProcessPasses (snd (applyUniforms_forEach k i s h)) = postProcessPasses h
   \<and> length (uniforms (snd (applyUniforms_forEach k i s h))) = length (uniforms h)
   \<and> (uniformLocations h = None \<longrightarrow> uniformLocations (snd (applyUniforms_forEach k i s h)) = None)
   \<and> (\<exists>evs. trace (snd (applyUniforms_forEach k i s h)) = trace h @ evs
         \<and> (\<forall>e\<in>set evs. isUniformOrTextureCall e))"
proof (induction k arbitrary: i s h)
  case 0
  show ?case by simp
next
  case (Suc k)
  obtain r1 h1 where st: "applyUniform i s h = (r1, h1)"
    by (cases "applyUniform i s h")
  note e = applyUniform_effect [OF st]
  from e(7) obtain e1 where e1: "trace h1 = trace h @ e1" "\<forall>e\<in>set e1. isUniformOrTextureCall e"
    by blast
  show ?case
  proof (cases r1)
    case (Throw err)
    then show ?thesis using st e(1,2,3,5) e1 by simp
  next
    case (Return slot)
    from Suc.IH [of "Suc i" slot h1] obtain e2 where
      e2: "trace (snd (applyUniforms_forEach k (Suc i) slot h1)) = trace h1 @ e2"
        "\<forall>e\<in>set e2. isUniformOrTextureCall e"
      by blast
    have "trace (snd (applyUniforms_forEach k (Suc i) slot h1)) = trace h @ (e1 @ e2)"
      "\<forall>e\<in>set (e1 @ e2). isUniformOrTextureCall e"
      using e1 e2 by auto
    then have "\<exists>evs. trace (snd (applyUniforms_forEach k (Suc i) slot h1)) = trace h @ evs
         \<and> (\<forall>e\<in>set evs. isUniformOrTextureCall e)"
      by blast
    then show ?thesis
      using Return st e(1,2,3,5) Suc.IH [of "Suc i" slot h1] by simp
  qed
qed

lemma applyUniforms_forEach_cached:
  assumes "texture (uniforms h ! j) = Some t"
  shows "uniforms (snd (applyUniforms_forEach k i s h)) ! j = uniforms h ! j"
  using assms
proof (induction k arbitrary: i s h)
  case 0
  show ?case by simp
next
  case (Suc k)
  obtain r1 h1 where st: "applyUniform i s h = (r1, h1)"
    by (cases "applyUniform i s h")
  have same: "uniforms h1 ! j = uniforms h ! j"
  proof (cases "j = i")
    case True
    then show ?thesis using applyUniform_effect(8) [OF st, of t] Suc.prems by simp
  next
    case False
    then show ?thesis using applyUniform_effect(6) [OF st] by simp
  qed
  show ?case
  proof (cases r1)
    case (Throw err)
    then show ?thesis using st same by simp
  next
    case (Return slot)
    then show ?thesis
      using st same Suc.IH [of h1 "Suc i" slot] Suc.prems by simp
  qed
qed

lemma applyUniforms_forEach_no_create:
  assumes "\<forall>j. i \<le> j \<and> j < i + k \<longrightarrow> imageValued (uniforms h ! j) \<longrightarrow>
             texture (uniforms h ! j) \<noteq> None"
  shows "uniforms (snd (applyUniforms_forEach k i s h)) = uniforms h
   \<and> gl (snd (applyUniforms_forEach k i s h)) = gl h
   \<and> (\<exists>evs. trace (snd (applyUniforms_forEach k i s h)) = trace h @ evs
         \<and> (\<forall>n. TextureCall (CreateTexture n) \<notin> set evs))"
  using assms
proof (induction k arbitrary: i s h)
  case 0
  show ?case by simp
next
  case (Suc k)
  obtain r1 h1 where st: "applyUniform i s h = (r1, h1)"
    by (cases "applyUniform i s h")
  note e = applyUniform_effect [OF st]
  from e(7) obtain e1 where e1: "trace h1 = trace h @ e1"
    by blast
  have "\<exists>t. texture (uniforms h ! i) = Some t \<or> \<not> imageValued (uniforms h ! i)"
    using Suc.prems by (cases "imageValued (uniforms h ! i)") auto
  then obtain t where "texture (uniforms h ! i) = Some t \<or> \<not> imageValued (uniforms h ! i)"
    by blast
  from e(8) [OF this] have s1: "uniforms h1 = uniforms h" "gl h1 = gl h"
    "\<forall>n. TextureCall (CreateTexture n) \<notin> set e1"
    using e1 by (auto simp: issued_def)
  show ?case
  proof (cases r1)
    case (Throw err)
    then show ?thesis using st s1 e1 by simp
  next
    case (Return slot)
    have "\<forall>j. Suc i \<le> j \<and> j < Suc i + k \<longrightarrow> imageValued (uniforms h1 ! j) \<longrightarrow>
             texture (uniforms h1 ! j) \<noteq> None"
      using Suc.prems s1(1) by auto
    from Suc.IH [OF this, of slot] obtain e2 where
      e2: "uniforms (snd (applyUniforms_forEach k (Suc i) slot h1)) = uniforms h1"
        "gl (snd (applyUniforms_forEach k (Suc i) slot h1)) = gl h1"
        "trace (snd (applyUniforms_forEach k (Suc i) slot h1)) = trace h1 @ e2"
        "\<forall>n. TextureCall (CreateTexture n) \<notin> set e2"
      by blast
    have "trace (snd (applyUniforms_forEach k (Suc i) slot h1)) = trace h @ (e1 @ e2)"
      "\<forall>n. TextureCall (CreateTexture n) \<notin> set (e1 @ e2)"
      using e1 e2 s1 by auto
    then have "\<exists>evs. trace (snd (applyUniforms_forEach k (Suc i) slot h1)) = trace h @ evs
         \<and> (\<forall>n. TextureCall (CreateTexture n) \<notin> set evs)"
      by blast
    then show ?thesis
      using Return st s1 e2 by simp
  qed
qed

lemma applyUniforms_forEach_returns:
  assumes "uniformLocations h \<noteq> None"
  shows "fst (applyUniforms_forEach k i s h) = Return ()"
  using assms
proof (induction k arbitrary: i s h)
  case 0
  show ?case by simp
next
  case (Suc k)
  obtain r1 h1 where st: "applyUniform i s h = (r1, h1)"
    by (cases "applyUniform i s h")
  from applyUniform_effect(4) [OF st] Suc.prems obtain slot
    where "r1 = Return slot" "uniformLocations h1 \<noteq> None"
    by blast
  then show ?case
    using st Suc.IH [of h1 "Suc i" slot] by simp
qed

lemma applyUniforms_forEach_binds:
  assumes "uniformLocations h \<noteq> None" and "i \<le> j" and "j < i + k"
    and "imageValued (uniforms h ! j)" and "texture (uniforms h ! j) = Some t"
  shows "\<exists>evs. trace (snd (applyUniforms_forEach k i s h)) = trace h @ evs
         \<and> TextureCall (BindTexture TEXTURE_2D (Some t)) \<in> set evs"
  using assms
proof (induction k arbitrary: i s h)
  case 0
  then show ?case by simp
next
  case (Suc k)
  obtain r1 h1 where st: "applyUniform i s h = (r1, h1)"
    by (cases "applyUniform i s h")
  note e = applyUniform_effect [OF st]
  from e(4) Suc.prems(1) obtain slot where r1: "r1 = Return slot" and u1: "uniformLocations h1 \<noteq> None"
    by blast
  from e(7) obtain e1 where e1: "trace h1 = trace h @ e1"
    by blast
  from applyUniforms_forEach_frame [of k "Suc i" slot h1] obtain e2 where
    e2: "trace (snd (applyUniforms_forEach k (Suc i) slot h1)) = trace h1 @ e2"
    by blast
  have step: "applyUniforms_forEach (Suc k) i s h = applyUniforms_forEach k (Suc i) slot h1"
    using st r1 by simp
  show ?case
  proof (cases "j = i")
    case True
    have "TextureCall (BindTexture TEXTURE_2D (Some t)) \<in> set e1"
      using e(9) [of t] Suc.prems(4,5) True e1 by (simp add: issued_def)
    moreover have "trace (snd (applyUniforms_forEach k (Suc i) slot h1)) = trace h @ (e1 @ e2)"
      using e1 e2 by simp
    moreover have "TextureCall (BindTexture TEXTURE_2D (Some t)) \<in> set (e1 @ e2)"
      using calculation(1) by simp
    ultimately show ?thesis
      unfolding step by blast
  next
    case False
    then have j: "Suc i \<le> j" "j < Suc i + k"
      using Suc.prems(2,3) by auto
    have uj: "uniforms h1 ! j = uniforms h ! j"
      using e(6) False by simp
    from Suc.IH [OF u1 j, of slot] uj Suc.prems(4,5) obtain e3 where
      e3: "trace (snd (applyUniforms_forEach k (Suc i) slot h1)) = trace h1 @ e3"
        "TextureCall (BindTexture TEXTURE_2D (Some t)) \<in> set e3"
      by auto
    have "trace (snd (applyUniforms_forEach k (Suc i) slot h1)) = trace h @ (e1 @ e3)"
      "TextureCall (BindTexture TEXTURE_2D (Some t)) \<in> set (e1 @ e3)"
      using e1 e3 by auto
    then show ?thesis
      unfolding step by blast
  qed
qed

subsection \<open>The post-processing pipeline\<close>

declare finalizeDraw_from.simps [simp del]

lemma finalizeDraw_from_eq:
  "finalizeDraw_from i h =
     h\<lparr>trace := trace h @
        map (\<lambda>j. PassApply (postProcessPasses h ! j)
                   (if j + 1 < length (postProcessPasses h)
                    then Some (postProcessPasses h ! (j + 1)) else None))
            [i..<length (postProcessPasses h)]\<rparr>"
proof (induction i h rule: finalizeDraw_from.induct)
  case (1 i h)
  show ?case
  proof (cases "i < length (postProcessPasses h)")
    case True
    then show ?thesis
      using "1.IH" [OF True]
      by (subst finalizeDraw_from.simps) (simp add: emit_def upt_conv_Cons)
  next
    case False
    then show ?thesis
      by (subst finalizeDraw_from.simps) simp
  qed
qed

lemma prepareDraw_loop_eq:
  "k \<le> length (postProcessPasses h) \<Longrightarrow>
   prepareDraw_loop k sz pixelRatio h =
     h\<lparr>trace := trace h @
        map (\<lambda>p. PassInit p sz pixelRatio) (rev (take k (postProcessPasses h)))\<rparr>"
proof (induction k arbitrary: h)
  case 0
  show ?case by simp
next
  case (Suc k)
  then show ?case
    by (simp add: emit_def take_Suc_conv_app_nth)
qed

lemma filter_isPassCall_uniform:
  "\<forall>e\<in>set evs. isUniformOrTextureCall e \<Longrightarrow> filter isPassCall evs = []"
proof (induction evs)
  case Nil
  show ?case by simp
next
  case (Cons e evs)
  then show ?case by (cases e) simp_all
qed

lemma prepareDraw_passes:
  "filter isPassCall (issued h (snd (prepareDraw sz pixelRatio h))) =
     map (\<lambda>p. PassInit p sz pixelRatio) (rev (postProcessPasses h))"
proof -
  define h8 where "h8 = h\<lparr>canvas := (canvas h)\<lparr>width := fst sz * pixelRatio,
                                     height := snd sz * pixelRatio,
                                     styleWidth := Px (fst sz),
                                     styleHeight := Px (snd sz)\<rparr>,
      trace := trace h @ [ProgramCall (UseProgram (currentProgram h))]
        @ map (\<lambda>p. PassInit p sz pixelRatio) (rev (postProcessPasses h))
        @ [TextureCall (BindTexture TEXTURE_2D None), ContextCall (ClearColor 0 0 0 0),
           ContextCall (Clear COLOR_BUFFER_BIT), ContextCall (Enable BLEND),
           ContextCall (BlendFunc ONE ONE_MINUS_SRC_ALPHA)]\<rparr>"
  have p: "prepareDraw sz pixelRatio h = applyUniforms h8"
    by (simp add: prepareDraw_def Let_def prepareDraw_loop_eq emit_def h8_def)
  obtain evs where evs: "trace (snd (applyUniforms h8)) = trace h8 @ evs"
      "\<forall>e\<in>set evs. isUniformOrTextureCall e"
    using applyUniforms_forEach_frame [of "length (uniforms h8)" 0 0 h8]
    unfolding applyUniforms_def by blast
  have "filter isPassCall (map (\<lambda>p. PassInit p sz pixelRatio) xs) =
      map (\<lambda>p. PassInit p sz pixelRatio) xs" for xs
    by (induction xs) simp_all
  then show ?thesis
    using evs by (simp add: p issued_def h8_def filter_isPassCall_uniform)
qed

lemma finalizeDraw_issued:
  "issued h (finalizeDraw h) =
     map (\<lambda>i. PassApply (postProcessPasses h ! i)
                (if i + 1 < length (postProcessPasses h)
                 then Some (postProcessPasses h ! (i + 1)) else None))
         [0..<length (postProcessPasses h)]"
  by (simp add: finalizeDraw_def finalizeDraw_from_eq issued_def)

text \<open>
  Claim C7. For every sequence of passes, \<open>prepareDraw\<close> calls \<open>init(size, pixelRatio)\<close>
  on the passes in reverse order of declaration, and \<open>finalizeDraw\<close> calls \<open>apply\<close> on
  the passes in order of declaration, pass \<open>i\<close> with pass \<open>i + 1\<close> as its target and the
  last pass with \<open>null\<close>; these are the only calls the two methods make on passes. For the
  passes [A, B], A is applied with target B, then B with no target.
\<close>

theorem pass_order:
  "filter isPassCall (issued h (snd (prepareDraw sz pixelRatio h))) =
     map (\<lambda>p. PassInit p sz pixelRatio) (rev (postProcessPasses h))
   \<and> issued h (finalizeDraw h) =
     map (\<lambda>i. PassApply (postProcessPasses h ! i)
                (if i + 1 < length (postProcessPasses h)
                 then Some (postProcessPasses h ! (i + 1)) else None))
         [0..<length (postProcessPasses h)]
   \<and> filter isPassCall (issued (h\<lparr>postProcessPasses := [A, B]\<rparr>)
        (snd (prepareDraw sz pixelRatio (h\<lparr>postProcessPasses := [A, B]\<rparr>)))) =
     [PassInit B sz pixelRatio, PassInit A sz pixelRatio]
   \<and> issued (h\<lparr>postProcessPasses := [A, B]\<rparr>) (finalizeDraw (h\<lparr>postProcessPasses := [A, B]\<rparr>)) =
     [PassApply A (Some B), PassApply B None]"
  by (simp add: prepareDraw_passes finalizeDraw_issued upt_rec)

subsection \<open>The resource cache\<close>

lemma handleWebGLContextLost_eq:
  "handleWebGLContextLost h =
     h\<lparr>bufferCache := Map.empty, shaderCache := Map.empty, programCache := Map.empty,
       currentProgram := None\<rparr>"
  by (simp add: handleWebGLContextLost_def clear_def)

lemma bindBuffer_trace:
  "trace (bindBuffer target b h) = trace h
     @ (case bufferCache h (bufUid b) of
          None \<Rightarrow> [BufferCall (CreateBuffer (nextHandle (gl h))),
                    BufferCall (BindBuffer target (nextHandle (gl h)))]
        | Some entry \<Rightarrow> [BufferCall (BindBuffer target (buffer entry))])
     @ [BufferCall (BufferData target
          (if target = ARRAY_BUFFER then Some (Float32Array (bufArray b))
           else if target = ELEMENT_ARRAY_BUFFER then
             Some (if hasOESElementIndexUint h then Uint32Array (bufArray b)
                   else Uint16Array (bufArray b))
           else None) (bufUsage b))]"
  by (simp add: bindBuffer_def fresh_def emit_def Let_def split: option.splits)

lemma bindBuffer_flag:
  "hasOESElementIndexUint (bindBuffer target b h) = hasOESElementIndexUint h"
  by (simp add: bindBuffer_def fresh_def emit_def Let_def split: option.splits)

lemma bindBuffer_miss:
  assumes "bufferCache h (bufUid b) = None"
  shows "bufferCache (bindBuffer target b h) (bufUid b) =
           Some \<lparr>buf = b, buffer = nextHandle (gl h)\<rparr>"
    and "issued h (bindBuffer target b h) =
       [BufferCall (CreateBuffer (nextHandle (gl h))),
        BufferCall (BindBuffer target (nextHandle (gl h))),
        BufferCall (BufferData target
          (if target = ARRAY_BUFFER then Some (Float32Array (bufArray b))
           else if target = ELEMENT_ARRAY_BUFFER then
             Some (if hasOESElementIndexUint h then Uint32Array (bufArray b)
                   else Uint16Array (bufArray b))
           else None) (bufUsage b))]"
  using assms by (simp_all add: bindBuffer_def fresh_def emit_def issued_def Let_def)

lemma getShader_miss:
  assumes "shaderCache h (shaderUid s) = None"
  shows "fst (getShader s h) = nextHandle (gl h)"
    and "shaderCache (snd (getShader s h)) (shaderUid s) = Some (nextHandle (gl h))"
    and "hd (issued h (snd (getShader s h))) =
           ProgramCall (CreateShader (shaderType s) (nextHandle (gl h)))"
  using assms by (simp_all add: getShader_def fresh_def emit_def issued_def Let_def)

lemma getShader_trace_prefix: "\<exists>evs. trace (snd (getShader s h)) = trace h @ evs"
  by (simp add: getShader_def fresh_def emit_def Let_def split: option.splits)

lemma getProgram_miss:
  assumes "programCache h (shaderUid f @ ''/'' @ shaderUid v) = None"
  shows "fst (getProgram f v h) = nextHandle (gl h)"
    and "programCache (snd (getProgram f v h)) (shaderUid f @ ''/'' @ shaderUid v) =
           Some (nextHandle (gl h))"
    and "hd (issued h (snd (getProgram f v h))) = ProgramCall (CreateProgram (nextHandle (gl h)))"
proof -
  obtain p h1 where f1: "fresh (ProgramCall \<circ> CreateProgram) h = (p, h1)"
    by (cases "fresh (ProgramCall \<circ> CreateProgram) h")
  then have p: "p = nextHandle (gl h)"
    and t1: "trace h1 = trace h @ [ProgramCall (CreateProgram p)]"
    by (auto simp: fresh_def emit_def Let_def)
  obtain fr h2 where g1: "getShader f h1 = (fr, h2)"
    by (cases "getShader f h1")
  obtain e2 where t2: "trace h2 = trace h1 @ e2"
    using getShader_trace_prefix [of f h1] g1 by auto
  obtain ve h4 where g2: "getShader v (emit (ProgramCall (AttachShader p fr)) h2) = (ve, h4)"
    by (cases "getShader v (emit (ProgramCall (AttachShader p fr)) h2)")
  obtain e4 where t4: "trace h4 = trace h2 @ [ProgramCall (AttachShader p fr)] @ e4"
    using getShader_trace_prefix [of v "emit (ProgramCall (AttachShader p fr)) h2"] g2
    by (auto simp: emit_def)
  have r: "getProgram f v h =
      (p, (emit (ProgramCall (LinkProgram p)) (emit (ProgramCall (AttachShader p ve)) h4))
            \<lparr>programCache := (programCache (emit (ProgramCall (LinkProgram p))
                 (emit (ProgramCall (AttachShader p ve)) h4)))
                 (shaderUid f @ ''/'' @ shaderUid v \<mapsto> p)\<rparr>)"
    using assms f1 g1 g2 by (simp add: getProgram_def Let_def)
  show "fst (getProgram f v h) = nextHandle (gl h)"
    using r p by simp
  show "programCache (snd (getProgram f v h)) (shaderUid f @ ''/'' @ shaderUid v) =
          Some (nextHandle (gl h))"
    using r p by simp
  show "hd (issued h (snd (getProgram f v h))) = ProgramCall (CreateProgram (nextHandle (gl h)))"
    using r p t1 t2 t4 by (simp add: issued_def emit_def)
qed

subsection \<open>Handles in the caches\<close>

lemma handlesAllocated_frame:
  assumes "handlesAllocated h"
    and "bufferCache h' = bufferCache h" and "shaderCache h' = shaderCache h"
    and "programCache h' = programCache h" and "nextHandle (gl h) \<le> nextHandle (gl h')"
  shows "handlesAllocated h'"
  using assms unfolding handlesAllocated_def by (metis less_le_trans)

lemma getAttributeLocation_frame:
  assumes "getAttributeLocation nm h = (r, h')"
  shows "bufferCache h' = bufferCache h" and "shaderCache h' = shaderCache h"
    and "programCache h' = programCache h" and "gl h' = gl h"
  using assms
  by (auto simp: getAttributeLocation_def emit_def Let_def split: option.splits if_splits)

lemma applyUniforms_image_caches:
  assumes "applyUniforms_image i s v h = (r, h')"
  shows "bufferCache h' = bufferCache h \<and> shaderCache h' = shaderCache h
    \<and> programCache h' = programCache h \<and> nextHandle (gl h) \<le> nextHandle (gl h')"
proof -
  obtain hm where hm: "applyUniforms_image i s v h =
     (case getUniformLocation (name (uniforms h ! i)) hm of
        (Throw e, h8) \<Rightarrow> (Throw e, h8)
      | (Return found, h8) \<Rightarrow> (Return (s + 1), emit (UniformCall (Uniform1i found s)) h8))"
    and m: "bufferCache hm = bufferCache h" "shaderCache hm = shaderCache h"
      "programCache hm = programCache h" "nextHandle (gl h) \<le> nextHandle (gl hm)"
  proof (cases "texture (uniforms h ! i)")
    case None
    show ?thesis
      by (rule that [OF applyUniforms_image_created [OF None]]) simp_all
  next
    case (Some t)
    show ?thesis
      by (rule that [OF applyUniforms_image_cached [OF Some]]) simp_all
  qed
  obtain r1 h8 where g: "getUniformLocation (name (uniforms h ! i)) hm = (r1, h8)"
    by (cases "getUniformLocation (name (uniforms h ! i)) hm")
  show ?thesis
    using assms hm g m getUniformLocation_frame [OF g]
    by (auto simp: emit_def split: result.splits)
qed

lemma applyUniform_caches:
  assumes "applyUniform i s h = (r, h')"
  shows "bufferCache h' = bufferCache h \<and> shaderCache h' = shaderCache h
    \<and> programCache h' = programCache h \<and> nextHandle (gl h) \<le> nextHandle (gl h')"
  using assms
proof (cases rule: applyUniform_branch)
  case (image v)
  then show ?thesis using applyUniforms_image_caches by blast
next
  case (set call)
  obtain r1 h1 where g: "getUniformLocation (name (uniforms h ! i)) h = (r1, h1)"
    by (cases "getUniformLocation (name (uniforms h ! i)) h")
  show ?thesis
    using set(2) g getUniformLocation_frame [OF g]
    by (auto simp: applyUniforms_set_def emit_def split: result.splits)
next
  case skip
  then show ?thesis by simp
qed

lemma applyUniforms_forEach_caches:
  "bufferCache (snd (applyUniforms_forEach k i s h)) = bufferCache h
   \<and> shaderCache (snd (applyUniforms_forEach k i s h)) = shaderCache h
   \<and> programCache (snd (applyUniforms_forEach k i s h)) = programCache h
   \<and> nextHandle (gl h) \<le> nextHandle (gl (snd (applyUniforms_forEach k i s h)))"
proof (induction k arbitrary: i s h)
  case 0
  show ?case by simp
next
  case (Suc k)
  obtain r1 h1 where st: "applyUniform i s h = (r1, h1)"
    by (cases "applyUniform i s h")
  note c = applyUniform_caches [OF st]
  show ?case
  proof (cases r1)
    case (Throw err)
    then show ?thesis using st c by simp
  next
    case (Return slot)
    then show ?thesis
      using st c Suc.IH [of "Suc i" slot h1] by auto
  qed
qed

lemma getShader_allocated:
  "handlesAllocated h \<Longrightarrow> handlesAllocated (snd (getShader s h))"
  by (auto simp: handlesAllocated_def getShader_def fresh_def emit_def Let_def less_Suc_eq
      split: option.splits)

lemma getShader_handles:
  "nextHandle (gl h) \<le> nextHandle (gl (snd (getShader s h)))"
  by (simp add: getShader_def fresh_def emit_def Let_def split: option.splits)

lemma emit_allocated: "handlesAllocated (emit e h) = handlesAllocated h"
  by (simp add: handlesAllocated_def emit_def)

lemma getProgram_allocated:
  assumes "handlesAllocated h"
  shows "handlesAllocated (snd (getProgram f v h))"
proof (cases "programCache h (shaderUid f @ ''/'' @ shaderUid v)")
  case (Some cached)
  then show ?thesis using assms by (simp add: getProgram_def)
next
  case None
  obtain p h1 where f1: "fresh (ProgramCall \<circ> CreateProgram) h = (p, h1)"
    by (cases "fresh (ProgramCall \<circ> CreateProgram) h")
  then have a1: "handlesAllocated h1" and p1: "p < nextHandle (gl h1)"
    using assms by (auto simp: fresh_def emit_def Let_def handlesAllocated_def less_Suc_eq)
  obtain fr h2 where g1: "getShader f h1 = (fr, h2)"
    by (cases "getShader f h1")
  have a2: "handlesAllocated h2" and p2: "p < nextHandle (gl h2)"
    using getShader_allocated [OF a1, of f] getShader_handles [of h1 f] g1 p1 by simp_all
  let ?h3 = "emit (ProgramCall (AttachShader p fr)) h2"
  obtain ve h4 where g2: "getShader v ?h3 = (ve, h4)"
    by (cases "getShader v ?h3")
  have a4: "handlesAllocated h4" and p4: "p < nextHandle (gl h4)"
    using getShader_allocated [of ?h3 v] getShader_handles [of ?h3 v] g2 a2 p2
    by (simp_all add: emit_allocated) (simp add: emit_def)
  show ?thesis
    using None f1 g1 g2 a4 p4
    by (auto simp: getProgram_def Let_def emit_def handlesAllocated_def)
qed

lemma createTextureInternal_frame:
  "bufferCache (snd (createTextureInternal wrapS wrapT h)) = bufferCache h
   \<and> shaderCache (snd (createTextureInternal wrapS wrapT h)) = shaderCache h
   \<and> programCache (snd (createTextureInternal wrapS wrapT h)) = programCache h
   \<and> nextHandle (gl h) \<le> nextHandle (gl (snd (createTextureInternal wrapS wrapT h)))"
  by (simp add: createTextureInternal_def fresh_def emit_def Let_def split: option.splits)

lemma prepareDraw_eq:
  "prepareDraw sz pixelRatio h =
     applyUniforms
       (h\<lparr>canvas := (canvas h)\<lparr>width := fst sz * pixelRatio,
                                 height := snd sz * pixelRatio,
                                 styleWidth := Px (fst sz),
                                 styleHeight := Px (snd sz)\<rparr>,
          trace := trace h @ [ProgramCall (UseProgram (currentProgram h))]
            @ map (\<lambda>p. PassInit p sz pixelRatio) (rev (postProcessPasses h))
            @ [TextureCall (BindTexture TEXTURE_2D None), ContextCall (ClearColor 0 0 0 0),
               ContextCall (Clear COLOR_BUFFER_BIT), ContextCall (Enable BLEND),
               ContextCall (BlendFunc ONE ONE_MINUS_SRC_ALPHA)]\<rparr>)"
  by (simp add: prepareDraw_def Let_def prepareDraw_loop_eq emit_def)

lemma prepareDraw_caches:
  "bufferCache (snd (prepareDraw sz pixelRatio h)) = bufferCache h
   \<and> shaderCache (snd (prepareDraw sz pixelRatio h)) = shaderCache h
   \<and> programCache (snd (prepareDraw sz pixelRatio h)) = programCache h
   \<and> nextHandle (gl h) \<le> nextHandle (gl (snd (prepareDraw sz pixelRatio h)))"
  unfolding prepareDraw_eq applyUniforms_def
  using applyUniforms_forEach_caches
    [of "length (uniforms h)" 0 0
      "h\<lparr>canvas := (canvas h)\<lparr>width := fst sz * pixelRatio,
                                 height := snd sz * pixelRatio,
                                 styleWidth := Px (fst sz),
                                 styleHeight := Px (snd sz)\<rparr>,
          trace := trace h @ [ProgramCall (UseProgram (currentProgram h))]
            @ map (\<lambda>p. PassInit p sz pixelRatio) (rev (postProcessPasses h))
            @ [TextureCall (BindTexture TEXTURE_2D None), ContextCall (ClearColor 0 0 0 0),
               ContextCall (Clear COLOR_BUFFER_BIT), ContextCall (Enable BLEND),
               ContextCall (BlendFunc ONE ONE_MINUS_SRC_ALPHA)]\<rparr>"]
  by simp

lemma setUniformMatrixValue_caches:
  assumes "setUniformMatrixValue nm m h = (r, h')"
  shows "bufferCache h' = bufferCache h \<and> shaderCache h' = shaderCache h
    \<and> programCache h' = programCache h \<and> gl h' = gl h"
  using setUniformMatrixValue_frame [OF assms] by simp

lemma applyFrameState_caches:
  "bufferCache (snd (applyFrameState fs h)) = bufferCache h
   \<and> shaderCache (snd (applyFrameState fs h)) = shaderCache h
   \<and> programCache (snd (applyFrameState fs h)) = programCache h
   \<and> gl (snd (applyFrameState fs h)) = gl h"
  unfolding applyFrameState_def Let_def
  by (auto simp: setUniformMatrixValue_snd split: prod.splits result.splits
      dest!: setUniformMatrixValue_caches)

lemma getUniformLocation_caches:
  assumes "getUniformLocation nm h = (r, h')"
  shows "bufferCache h' = bufferCache h \<and> shaderCache h' = shaderCache h
    \<and> programCache h' = programCache h \<and> gl h' = gl h"
  using getUniformLocation_frame [OF assms] by simp

lemma getAttributeLocation_caches:
  assumes "getAttributeLocation nm h = (r, h')"
  shows "bufferCache h' = bufferCache h \<and> shaderCache h' = shaderCache h
    \<and> programCache h' = programCache h \<and> gl h' = gl h"
  using getAttributeLocation_frame [OF assms] by simp

lemma reachable_handlesAllocated:
  "reachable h \<Longrightarrow> handlesAllocated h"
proof (induction rule: reachable.induct)
  case (constructed ctx exts opts)
  show ?case
    by (simp add: handlesAllocated_def constructor_def emit_def Let_def)
next
  case (lost h flag)
  then show ?case by (simp add: handlesAllocated_def)
next
  case (handed h n)
  from handed.IH show ?case by (rule handlesAllocated_frame) simp_all
next
  case (bindBuffer h target b)
  then show ?case
    by (auto simp: handlesAllocated_def bindBuffer_def fresh_def emit_def Let_def less_Suc_eq
        split: option.splits)
next
  case (deleteBuffer h b)
  then show ?case
    by (auto simp: handlesAllocated_def deleteBuffer_def emit_def Let_def
        split: option.splits if_splits)
next
  case (prepareDraw h sz pixelRatio)
  from prepareDraw.IH show ?case
    by (rule handlesAllocated_frame) (simp_all add: prepareDraw_caches)
next
  case (drawElements h start e)
  then show ?case by (simp add: handlesAllocated_def drawElements_def emit_def Let_def)
next
  case (finalizeDraw h)
  then show ?case by (simp add: handlesAllocated_def finalizeDraw_def finalizeDraw_from_eq)
next
  case (applyFrameState h fs)
  from applyFrameState.IH show ?case
    by (rule handlesAllocated_frame) (simp_all add: applyFrameState_caches)
next
  case (getShader h s)
  from getShader.IH show ?case by (rule getShader_allocated)
next
  case (useProgram h program)
  then show ?case by (simp add: handlesAllocated_def useProgram_def emit_def)
next
  case (getProgram h f v)
  from getProgram.IH show ?case by (rule getProgram_allocated)
next
  case (getUniformLocation h nm)
  from getUniformLocation.IH show ?case
    by (rule handlesAllocated_frame)
      (simp_all add: getUniformLocation_frame [OF surjective_pairing])
next
  case (getAttributeLocation h nm)
  from getAttributeLocation.IH show ?case
    by (rule handlesAllocated_frame)
      (simp_all add: getAttributeLocation_frame [OF surjective_pairing])
next
  case (setUniformFloatValue h nm x)
  from setUniformFloatValue.IH show ?case
    by (rule handlesAllocated_frame)
      (auto simp: setUniformFloatValue_def emit_def split: prod.splits result.splits
        dest!: getUniformLocation_caches)
next
  case (setUniformMatrixValue h nm m)
  from setUniformMatrixValue.IH show ?case
    by (rule handlesAllocated_frame) (simp_all add: setUniformMatrixValue_snd)
next
  case (enableAttributeArray h nm asize type stride offset)
  from enableAttributeArray.IH show ?case
    by (rule handlesAllocated_frame)
      (auto simp: enableAttributeArray_def emit_def Let_def split: prod.splits result.splits
        dest!: getAttributeLocation_caches)
next
  case (handleWebGLContextLost h)
  then show ?case by (simp add: handlesAllocated_def handleWebGLContextLost_eq)
next
  case (handleWebGLContextRestored h)
  then show ?case by (simp add: handleWebGLContextRestored_def)
next
  case (applyUniforms h)
  from applyUniforms.IH show ?case
    unfolding applyUniforms_def
    by (rule handlesAllocated_frame) (simp_all add: applyUniforms_forEach_caches)
next
  case (createEmptyTexture h w ht wrapS wrapT)
  from createEmptyTexture.IH show ?case
    by (rule handlesAllocated_frame)
      (use createTextureInternal_frame [of wrapS wrapT h] in
        \<open>auto simp: createEmptyTexture_def emit_def split: prod.splits\<close>)
next
  case (createTexture h element wrapS wrapT)
  from createTexture.IH show ?case
    by (rule handlesAllocated_frame)
      (use createTextureInternal_frame [of wrapS wrapT h] in
        \<open>auto simp: createTexture_def emit_def split: prod.splits\<close>)
qed

subsection \<open>Invalidation, upload and draw\<close>

lemma acquire_after_loss:
  "bufferCache (handleWebGLContextLost h) = Map.empty
   \<and> shaderCache (handleWebGLContextLost h) = Map.empty
   \<and> programCache (handleWebGLContextLost h) = Map.empty
   \<and> currentProgram (handleWebGLContextLost h) = None
   \<and> trace (handleWebGLContextLost h) = trace h
   \<and> bufferCache (bindBuffer target b (handleWebGLContextLost h)) (bufUid b) =
       Some \<lparr>buf = b, buffer = nextHandle (gl h)\<rparr>
   \<and> take 2 (issued (handleWebGLContextLost h) (bindBuffer target b (handleWebGLContextLost h))) =
       [BufferCall (CreateBuffer (nextHandle (gl h))),
        BufferCall (BindBuffer target (nextHandle (gl h)))]
   \<and> fst (getShader s (handleWebGLContextLost h)) = nextHandle (gl h)
   \<and> hd (issued (handleWebGLContextLost h) (snd (getShader s (handleWebGLContextLost h)))) =
       ProgramCall (CreateShader (shaderType s) (nextHandle (gl h)))
   \<and> fst (getProgram f v (handleWebGLContextLost h)) = nextHandle (gl h)
   \<and> hd (issued (handleWebGLContextLost h) (snd (getProgram f v (handleWebGLContextLost h)))) =
       ProgramCall (CreateProgram (nextHandle (gl h)))
   \<and> (\<forall>entry. bufferCache h (bufUid b) = Some entry \<and> buffer entry < nextHandle (gl h) \<longrightarrow>
        BufferCall (BindBuffer target (buffer entry))
          \<notin> set (issued (handleWebGLContextLost h) (bindBuffer target b (handleWebGLContextLost h))))
   \<and> (\<forall>stale. shaderCache h (shaderUid s) = Some stale \<and> stale < nextHandle (gl h) \<longrightarrow>
        fst (getShader s (handleWebGLContextLost h)) \<noteq> stale)
   \<and> (\<forall>stale. programCache h (shaderUid f @ ''/'' @ shaderUid v) = Some stale
          \<and> stale < nextHandle (gl h) \<longrightarrow>
        fst (getProgram f v (handleWebGLContextLost h)) \<noteq> stale)"
proof -
  let ?l = "handleWebGLContextLost h"
  have e: "bufferCache ?l (bufUid b) = None" "shaderCache ?l (shaderUid s) = None"
    "programCache ?l (shaderUid f @ ''/'' @ shaderUid v) = None"
    by (simp_all add: handleWebGLContextLost_eq)
  show ?thesis
    using bindBuffer_miss [OF e(1), of target] getShader_miss [OF e(2)] getProgram_miss [OF e(3)]
    by (auto simp: handleWebGLContextLost_eq)
qed

text \<open>
  Claim C1. After the context-loss handler has run, the buffer, shader and program caches
  are empty and no program is active, and the handler has made no call at all on the
  rendering context, hence no delete call. For every buffer object, shader object and
  pair of shader objects, the next acquire misses the cache: \<open>bindBuffer\<close> starts with a
  \<open>createBuffer\<close> call, binds the handle that call returned and stores it in a new entry;
  \<open>getShader\<close> and \<open>getProgram\<close> start with a creation call and return its handle. On a
  reachable helper, the handle that was cached before the loss is neither bound nor
  returned.
\<close>

theorem context_loss_invalidates_caches:
  "bufferCache (handleWebGLContextLost h) = Map.empty
   \<and> shaderCache (handleWebGLContextLost h) = Map.empty
   \<and> programCache (handleWebGLContextLost h) = Map.empty
   \<and> currentProgram (handleWebGLContextLost h) = None
   \<and> trace (handleWebGLContextLost h) = trace h
   \<and> bufferCache (bindBuffer target b (handleWebGLContextLost h)) (bufUid b) =
       Some \<lparr>buf = b, buffer = nextHandle (gl h)\<rparr>
   \<and> take 2 (issued (handleWebGLContextLost h) (bindBuffer target b (handleWebGLContextLost h))) =
       [BufferCall (CreateBuffer (nextHandle (gl h))),
        BufferCall (BindBuffer target (nextHandle (gl h)))]
   \<and> fst (getShader s (handleWebGLContextLost h)) = nextHandle (gl h)
   \<and> hd (issued (handleWebGLContextLost h) (snd (getShader s (handleWebGLContextLost h)))) =
       ProgramCall (CreateShader (shaderType s) (nextHandle (gl h)))
   \<and> fst (getProgram f v (handleWebGLContextLost h)) = nextHandle (gl h)
   \<and> hd (issued (handleWebGLContextLost h) (snd (getProgram f v (handleWebGLContextLost h)))) =
       ProgramCall (CreateProgram (nextHandle (gl h)))
   \<and> (\<forall>entry. reachable h \<and> bufferCache h (bufUid b) = Some entry \<longrightarrow>
        BufferCall (BindBuffer target (buffer entry))
          \<notin> set (issued (handleWebGLContextLost h) (bindBuffer target b (handleWebGLContextLost h))))
   \<and> (\<forall>stale. reachable h \<and> shaderCache h (shaderUid s) = Some stale \<longrightarrow>
        fst (getShader s (handleWebGLContextLost h)) \<noteq> stale)
   \<and> (\<forall>stale. reachable h \<and> programCache h (shaderUid f @ ''/'' @ shaderUid v) = Some stale \<longrightarrow>
        fst (getProgram f v (handleWebGLContextLost h)) \<noteq> stale)"
proof -
  have a: "buffer entry < nextHandle (gl h)"
    if "reachable h" "bufferCache h (bufUid b) = Some entry" for entry
    using reachable_handlesAllocated [OF that(1)] that(2) unfolding handlesAllocated_def by blast
  have s: "stale < nextHandle (gl h)"
    if "reachable h" "shaderCache h (shaderUid s) = Some stale" for stale
    using reachable_handlesAllocated [OF that(1)] that(2) unfolding handlesAllocated_def by blast
  have p: "stale < nextHandle (gl h)"
    if "reachable h" "programCache h (shaderUid f @ ''/'' @ shaderUid v) = Some stale" for stale
    using reachable_handlesAllocated [OF that(1)] that(2) unfolding handlesAllocated_def by blast
  show ?thesis
    using acquire_after_loss [of h target b s f v] a s p by blast
qed

lemma exampleLoaded_reachable: "reachable exampleLoaded"
  unfolding exampleLoaded_def exampleHelper_def
  by (intro reachable.getProgram reachable.bindBuffer reachable.constructed)

lemma exampleLoaded_caches:
  "bufferCache exampleLoaded ''1'' = Some \<lparr>buf = exampleBuffer, buffer = 0\<rparr>"
  "shaderCache exampleLoaded ''2'' = Some 2"
  "programCache exampleLoaded ''2/3'' = Some 1"
  "nextHandle (gl exampleLoaded) = 4"
  by (simp_all add: exampleLoaded_def getProgram_def getShader_def bindBuffer_def fresh_def emit_def
      exampleHelper_def constructor_def exampleContext_def exampleBuffer_def exampleShader_def
      exampleVertex_def Let_def)

theorem context_loss_invalidates_caches_witness:
  "reachable exampleLoaded
   \<and> bufferCache exampleLoaded (bufUid exampleBuffer) = Some \<lparr>buf = exampleBuffer, buffer = 0\<rparr>
   \<and> shaderCache exampleLoaded (shaderUid exampleShader) = Some 2
   \<and> programCache exampleLoaded (shaderUid exampleShader @ ''/'' @ shaderUid exampleVertex) = Some 1
   \<and> nextHandle (gl exampleLoaded) = 4
   \<and> bufferCache (bindBuffer ARRAY_BUFFER exampleBuffer (handleWebGLContextLost exampleLoaded))
        (bufUid exampleBuffer) = Some \<lparr>buf = exampleBuffer, buffer = 4\<rparr>
   \<and> BufferCall (BindBuffer ARRAY_BUFFER 0)
        \<notin> set (issued (handleWebGLContextLost exampleLoaded)
                 (bindBuffer ARRAY_BUFFER exampleBuffer (handleWebGLContextLost exampleLoaded)))
   \<and> fst (getShader exampleShader (handleWebGLContextLost exampleLoaded)) = 4
   \<and> fst (getProgram exampleShader exampleVertex (handleWebGLContextLost exampleLoaded)) = 4"
  using context_loss_invalidates_caches [of exampleLoaded ARRAY_BUFFER exampleBuffer exampleShader
      exampleShader exampleVertex]
  by (simp add: exampleLoaded_reachable exampleLoaded_caches exampleBuffer_def exampleShader_def
      exampleVertex_def)

text \<open>
  Claim C2. Every buffer bind makes one upload, of the array converted by the target: a
  bind to the vertex-array target uploads \<open>new Float32Array(arr)\<close>; a bind to the
  element-array target uploads \<open>new Uint32Array(arr)\<close> when \<open>hasOESElementIndexUint\<close> is
  set and \<open>new Uint16Array(arr)\<close> otherwise.
\<close>

theorem bindBuffer_upload_conversion:
  "uploads (trace (bindBuffer ARRAY_BUFFER b h)) =
     uploads (trace h) @ [(ARRAY_BUFFER, Some (Float32Array (bufArray b)), bufUsage b)]
   \<and> uploads (trace (bindBuffer ELEMENT_ARRAY_BUFFER b h)) =
     uploads (trace h) @
       [(ELEMENT_ARRAY_BUFFER,
         Some (if hasOESElementIndexUint h then Uint32Array (bufArray b)
               else Uint16Array (bufArray b)),
         bufUsage b)]"
  by (simp add: bindBuffer_trace uploads_append split: option.splits)

text \<open>
  Claim C3. For all start and end indices, \<open>drawElements\<close> makes one call, with the
  triangle primitive, count \<open>end - start\<close> and byte offset \<open>start\<close> times the element
  size; element type and element size are UNSIGNED_INT and 4 when
  \<open>hasOESElementIndexUint\<close> is set, UNSIGNED_SHORT and 2 otherwise. An index upload
  followed by a draw reads the same flag: \<open>bindBuffer\<close> leaves it unchanged. With the
  flag unset, \<open>drawElements(10, 20)\<close> draws 10 items at byte offset 20.
\<close>

theorem drawElements_call:
  "trace (drawElements start e h) = trace h @
     [ContextCall (DrawElements TRIANGLES (e - start)
        (if hasOESElementIndexUint h then UNSIGNED_INT else UNSIGNED_SHORT)
        (start * (if hasOESElementIndexUint h then 4 else 2)))]
   \<and> uploads (trace (bindBuffer ELEMENT_ARRAY_BUFFER b h)) =
     uploads (trace h) @
       [(ELEMENT_ARRAY_BUFFER,
         Some (if hasOESElementIndexUint h then Uint32Array (bufArray b)
               else Uint16Array (bufArray b)),
         bufUsage b)]
   \<and> trace (drawElements start e (bindBuffer ELEMENT_ARRAY_BUFFER b h)) =
     trace (bindBuffer ELEMENT_ARRAY_BUFFER b h) @
     [ContextCall (DrawElements TRIANGLES (e - start)
        (if hasOESElementIndexUint h then UNSIGNED_INT else UNSIGNED_SHORT)
        (start * (if hasOESElementIndexUint h then 4 else 2)))]
   \<and> trace (drawElements 10 20 (h\<lparr>hasOESElementIndexUint := False\<rparr>)) = trace h @
     [ContextCall (DrawElements TRIANGLES 10 UNSIGNED_SHORT 20)]"
  by (simp add: drawElements_def trace_emit bindBuffer_trace bindBuffer_flag uploads_append
      Let_def split: option.splits)

text \<open>
  Claim C8, as stated, fails: on a helper whose context is lost, \<open>deleteBuffer\<close> of a
  buffer object that has no cache entry returns normally.
\<close>

theorem deleteBuffer_missing_entry_counterexample:
  "bufferCache (loseContext exampleHelper) (bufUid exampleBuffer) = None
   \<and> fst (deleteBuffer exampleBuffer (loseContext exampleHelper)) = Return ()"
  by (simp add: deleteBuffer_def loseContext_def exampleHelper_def constructor_def
      exampleContext_def emit_def Let_def)

text \<open>
  Claim C8, amended. \<open>deleteBuffer\<close> of a buffer object with a cache entry removes the
  entry, after a \<open>deleteBuffer\<close> call on its handle when the context is not lost and
  without that call when the context is lost. For a buffer object with no cache entry it
  throws a TypeError when the context is not lost, and when the context is lost it returns
  normally, leaves the cache as it is and makes no delete call.
\<close>

theorem deleteBuffer_cases:
  "(bufferCache h (bufUid b) = Some entry \<and> \<not> contextLost (gl h) \<longrightarrow>
      fst (deleteBuffer b h) = Return ()
      \<and> issued h (snd (deleteBuffer b h)) =
          [ContextCall IsContextLost, BufferCall (DeleteBuffer (buffer entry))]
      \<and> bufferCache (snd (deleteBuffer b h)) = (bufferCache h)(bufUid b := None))
   \<and> (bufferCache h (bufUid b) = Some entry \<and> contextLost (gl h) \<longrightarrow>
      fst (deleteBuffer b h) = Return ()
      \<and> issued h (snd (deleteBuffer b h)) = [ContextCall IsContextLost]
      \<and> bufferCache (snd (deleteBuffer b h)) = (bufferCache h)(bufUid b := None))
   \<and> (bufferCache h (bufUid b) = None \<and> \<not> contextLost (gl h) \<longrightarrow>
      fst (deleteBuffer b h) = Throw TypeError
      \<and> issued h (snd (deleteBuffer b h)) = [ContextCall IsContextLost]
      \<and> bufferCache (snd (deleteBuffer b h)) = bufferCache h)
   \<and> (bufferCache h (bufUid b) = None \<and> contextLost (gl h) \<longrightarrow>
      fst (deleteBuffer b h) = Return ()
      \<and> issued h (snd (deleteBuffer b h)) = [ContextCall IsContextLost]
      \<and> bufferCache (snd (deleteBuffer b h)) = bufferCache h)"
  by (auto simp add: deleteBuffer_def emit_def issued_def Let_def)

lemma exampleBufferBound_facts:
  "bufferCache exampleBufferBound ''1'' = Some \<lparr>buf = exampleBuffer, buffer = 0\<rparr>"
  "contextLost (gl exampleBufferBound) = False"
  "bufferCache exampleHelper ''1'' = None"
  "contextLost (gl exampleHelper) = False"
  by (simp_all add: exampleBufferBound_def bindBuffer_def fresh_def exampleHelper_def constructor_def
      exampleContext_def exampleBuffer_def emit_def Let_def)

theorem deleteBuffer_cases_witness:
  "bufferCache exampleBufferBound (bufUid exampleBuffer) = Some \<lparr>buf = exampleBuffer, buffer = 0\<rparr>
   \<and> \<not> contextLost (gl exampleBufferBound)
   \<and> fst (deleteBuffer exampleBuffer exampleBufferBound) = Return ()
   \<and> issued exampleBufferBound (snd (deleteBuffer exampleBuffer exampleBufferBound)) =
       [ContextCall IsContextLost, BufferCall (DeleteBuffer 0)]
   \<and> bufferCache (snd (deleteBuffer exampleBuffer exampleBufferBound)) (bufUid exampleBuffer) = None
   \<and> contextLost (gl (loseContext exampleBufferBound))
   \<and> issued (loseContext exampleBufferBound)
        (snd (deleteBuffer exampleBuffer (loseContext exampleBufferBound))) =
       [ContextCall IsContextLost]
   \<and> bufferCache (snd (deleteBuffer exampleBuffer (loseContext exampleBufferBound)))
        (bufUid exampleBuffer) = None
   \<and> bufferCache exampleHelper (bufUid exampleBuffer) = None
   \<and> fst (deleteBuffer exampleBuffer exampleHelper) = Throw TypeError
   \<and> fst (deleteBuffer exampleBuffer (loseContext exampleHelper)) = Return ()"
  using deleteBuffer_cases [of exampleBufferBound exampleBuffer "\<lparr>buf = exampleBuffer, buffer = 0\<rparr>"]
    deleteBuffer_cases [of "loseContext exampleBufferBound" exampleBuffer
      "\<lparr>buf = exampleBuffer, buffer = 0\<rparr>"]
    deleteBuffer_cases [of exampleHelper exampleBuffer]
    deleteBuffer_cases [of "loseContext exampleHelper" exampleBuffer]
  by (simp add: exampleBufferBound_facts loseContext_def exampleBuffer_def)

subsection \<open>The binding tracker\<close>

text \<open>
  Claim C4. For every program P: \<open>useProgram(P)\<close> with P the active program returns false,
  makes no call on the context and leaves the helper, hence both location maps, as it
  was; with P different from the active program it returns true, makes P the active
  program, by the one call \<open>gl.useProgram(P)\<close> on the context and in the helper's own
  field, and leaves both the uniform-location map and the attribute-location map empty.
\<close>

theorem useProgram_change:
  "(program = currentProgram h \<longrightarrow>
        useProgram program h = (False, h)
        \<and> issued h (snd (useProgram program h)) = [])
   \<and> (program \<noteq> currentProgram h \<longrightarrow>
        fst (useProgram program h) = True
        \<and> issued h (snd (useProgram program h)) = [ProgramCall (UseProgram program)]
        \<and> currentProgram (snd (useProgram program h)) = program
        \<and> uniformLocations (snd (useProgram program h)) = Some Map.empty
        \<and> attribLocations (snd (useProgram program h)) = Some Map.empty)"
  by (simp add: useProgram_def issued_def emit_def)

theorem useProgram_change_witness:
  "useProgram None exampleHelper = (False, exampleHelper)
   \<and> issued exampleHelper (snd (useProgram None exampleHelper)) = []
   \<and> fst (useProgram (Some 7) exampleHelper) = True
   \<and> issued exampleHelper (snd (useProgram (Some 7) exampleHelper)) =
       [ProgramCall (UseProgram (Some 7))]
   \<and> currentProgram (snd (useProgram (Some 7) exampleHelper)) = Some 7
   \<and> uniformLocations (snd (useProgram (Some 7) exampleHelper)) = Some Map.empty
   \<and> attribLocations (snd (useProgram (Some 7) exampleHelper)) = Some Map.empty
   \<and> useProgram (Some 7) (snd (useProgram (Some 7) exampleHelper)) =
       (False, snd (useProgram (Some 7) exampleHelper))
   \<and> issued (snd (useProgram (Some 7) exampleHelper))
         (snd (useProgram (Some 7) (snd (useProgram (Some 7) exampleHelper)))) = []"
proof -
  have c: "currentProgram exampleHelper = None"
    by (simp add: exampleHelper_def constructor_def)
  have c2: "currentProgram (snd (useProgram (Some 7) exampleHelper)) = Some 7"
    using useProgram_change [of "Some 7" exampleHelper] by (simp add: c)
  show ?thesis
    using useProgram_change [of None exampleHelper] useProgram_change [of "Some 7" exampleHelper]
      useProgram_change [of "Some 7" "snd (useProgram (Some 7) exampleHelper)"]
    by (simp add: c c2 issued_def)
qed

lemma getUniformLocation_null_again:
  assumes "uniformLocations h = Some locations"
    and "locations nm = None \<or> locations nm = Some None"
    and "uniformLocationOf (gl h) (currentProgram h) nm = None"
  shows "issued h (snd (getUniformLocation nm h)) =
           [UniformCall (GetUniformLocation (currentProgram h) nm)]"
    and "uniformLocations (snd (getUniformLocation nm h)) = Some (locations(nm \<mapsto> None))"
    and "gl (snd (getUniformLocation nm h)) = gl h"
    and "currentProgram (snd (getUniformLocation nm h)) = currentProgram h"
  using assms by (auto simp: getUniformLocation_def emit_def issued_def Let_def)

lemma getAttributeLocation_zero_again:
  assumes "attribLocations h = Some locations"
    and "locations nm = None \<or> locations nm = Some 0"
    and "attribLocationOf (gl h) (currentProgram h) nm = 0"
  shows "issued h (snd (getAttributeLocation nm h)) =
           [UniformCall (GetAttribLocation (currentProgram h) nm)]"
    and "attribLocations (snd (getAttributeLocation nm h)) = Some (locations(nm \<mapsto> 0))"
    and "gl (snd (getAttributeLocation nm h)) = gl h"
    and "currentProgram (snd (getAttributeLocation nm h)) = currentProgram h"
  using assms by (auto simp: getAttributeLocation_def emit_def issued_def Let_def)

text \<open>
  Claim C5 at the example helper, on which a program is in use and whose context resolves
  no uniform name and answers 0 for every attribute name: two resolutions of the same
  name in a row, with no program change in between, make two lookups on the context.
\<close>

theorem falsy_location_looked_up_again:
  "issued exampleBound
     (snd (getUniformLocation ''u_opacity'' (snd (getUniformLocation ''u_opacity'' exampleBound)))) =
     [UniformCall (GetUniformLocation (Some 1) ''u_opacity''),
      UniformCall (GetUniformLocation (Some 1) ''u_opacity'')]
   \<and> currentProgram (snd (getUniformLocation ''u_opacity'' exampleBound)) = currentProgram exampleBound
   \<and> issued exampleBound
     (snd (getAttributeLocation ''a_position''
        (snd (getAttributeLocation ''a_position'' exampleBound)))) =
     [UniformCall (GetAttribLocation (Some 1) ''a_position''),
      UniformCall (GetAttribLocation (Some 1) ''a_position'')]"
  by (simp add: exampleBound_def useProgram_def exampleHelper_def constructor_def exampleContext_def
      getUniformLocation_def getAttributeLocation_def emit_def issued_def Let_def)

subsection \<open>The transform computer\<close>

lemma applyFrameState_projectionMatrix:
  "projectionMatrix (snd (applyFrameState fs h)) =
     translateTransform
       (rotateTransform
          (scaleTransform (resetTransform (projectionMatrix h))
             (2 / (resolution (fsViewState fs) * fst (fsSize fs)))
             (2 / (resolution (fsViewState fs) * snd (fsSize fs))))
          (- rotation (fsViewState fs)))
       (- fst (center (fsViewState fs))) (- snd (center (fsViewState fs)))"
  unfolding applyFrameState_def Let_def
  by (auto simp: setUniformMatrixValue_snd split: prod.splits result.splits
      dest!: setUniformMatrixValue_frame(1))

text \<open>
  Claim C6. For every frame state, the projection transform that \<open>applyFrameState\<close>
  leaves in the helper is obtained from the identity by a scale by
  \<open>(2 / (resolution * width), 2 / (resolution * height))\<close>, then a rotation by the
  negative view rotation, then a translation by the negative view center, in this order.
  With center (0, 0), resolution 1, rotation 0 and size (100, 100) it is the scale of the
  identity by (0.02, 0.02), whose rotation and translation cells are 0.
\<close>

theorem applyFrameState_projection:
  "projectionMatrix (snd (applyFrameState fs h)) =
     translateTransform
       (rotateTransform
          (scaleTransform (resetTransform (projectionMatrix h))
             (2 / (resolution (fsViewState fs) * fst (fsSize fs)))
             (2 / (resolution (fsViewState fs) * snd (fsSize fs))))
          (- rotation (fsViewState fs)))
       (- fst (center (fsViewState fs))) (- snd (center (fsViewState fs)))
   \<and> resetTransform (projectionMatrix h) = createTransform
   \<and> projectionMatrix (snd (applyFrameState
        \<lparr>fsSize = (100, 100),
         fsViewState = \<lparr>center = (0, 0), resolution = 1, rotation = 0\<rparr>\<rparr> h)) =
      scaleTransform createTransform 0.02 0.02
   \<and> scaleTransform createTransform 0.02 0.02 = Transform 0.02 0 0 0.02 0 0"
  by (simp add: applyFrameState_projectionMatrix scaleTransform_def rotateTransform_def
      translateTransform_def resetTransform_def createTransform_def)

subsection \<open>The context lifecycle\<close>

lemma exampleFramed_facts:
  "uniforms exampleFramed =
     [\<lparr>name = ''u_image'', uvalue = Static (ImageValue (HTMLCanvasElement 0)), texture = Some 0\<rparr>]"
  "uniformLocations exampleFramed \<noteq> None"
  "nextHandle (gl exampleFramed) = 1"
  by (simp_all add: exampleFramed_def prepareDraw_def applyUniforms_def applyUniform_def
      applyUniforms_image_def getUniformLocation_def useProgram_def constructor_def
      exampleOptions_def exampleContext_def fresh_def emit_def Let_def texImage2D_def)

text \<open>
  Claim C9. The context-loss handler changes the three caches and the active program and
  no other field of the helper; in particular the custom uniforms keep the texture handles
  cached on them. At the first \<open>applyUniforms\<close> after the restore, a uniform that had a
  texture handle still has it; when every image-valued uniform had one, no texture is
  created and the context hands out no handle; and, the location maps being defined, each
  image-valued uniform binds the handle it had before the loss.
\<close>

theorem context_loss_keeps_uniform_textures:
  "handleWebGLContextLost h =
     h\<lparr>bufferCache := Map.empty, shaderCache := Map.empty, programCache := Map.empty,
       currentProgram := None\<rparr>
   \<and> uniforms (handleWebGLContextRestored (handleWebGLContextLost h)) = uniforms h
   \<and> (\<forall>j t. texture (uniforms h ! j) = Some t \<longrightarrow>
         uniforms (snd (applyUniforms (handleWebGLContextRestored (handleWebGLContextLost h)))) ! j
           = uniforms h ! j)
   \<and> ((\<forall>u\<in>set (uniforms h). imageValued u \<longrightarrow> texture u \<noteq> None) \<longrightarrow>
         uniforms (snd (applyUniforms (handleWebGLContextRestored (handleWebGLContextLost h))))
           = uniforms h
         \<and> gl (snd (applyUniforms (handleWebGLContextRestored (handleWebGLContextLost h)))) = gl h
         \<and> (\<forall>n. TextureCall (CreateTexture n)
               \<notin> set (issued (handleWebGLContextRestored (handleWebGLContextLost h))
                     (snd (applyUniforms (handleWebGLContextRestored (handleWebGLContextLost h)))))))
   \<and> (\<forall>j t. uniformLocations h \<noteq> None \<and> j < length (uniforms h)
           \<and> imageValued (uniforms h ! j) \<and> texture (uniforms h ! j) = Some t \<longrightarrow>
         TextureCall (BindTexture TEXTURE_2D (Some t))
           \<in> set (issued (handleWebGLContextRestored (handleWebGLContextLost h))
                 (snd (applyUniforms (handleWebGLContextRestored (handleWebGLContextLost h))))))"
proof -
  let ?r = "handleWebGLContextRestored (handleWebGLContextLost h)"
  have r: "uniforms ?r = uniforms h" "gl ?r = gl h" "trace ?r = trace h"
    "uniformLocations ?r = uniformLocations h"
    by (simp_all add: handleWebGLContextRestored_def handleWebGLContextLost_eq)
  have a: "uniforms (snd (applyUniforms ?r)) ! j = uniforms h ! j"
    if "texture (uniforms h ! j) = Some t" for j t
    using applyUniforms_forEach_cached [of ?r j t] that r(1) by (simp add: applyUniforms_def)
  have b: "uniforms (snd (applyUniforms ?r)) = uniforms h
         \<and> gl (snd (applyUniforms ?r)) = gl h
         \<and> (\<forall>n. TextureCall (CreateTexture n) \<notin> set (issued ?r (snd (applyUniforms ?r))))"
    if all: "\<forall>u\<in>set (uniforms h). imageValued u \<longrightarrow> texture u \<noteq> None"
  proof -
    have "\<forall>j. 0 \<le> j \<and> j < 0 + length (uniforms ?r) \<longrightarrow> imageValued (uniforms ?r ! j) \<longrightarrow>
             texture (uniforms ?r ! j) \<noteq> None"
      using all r(1) by simp
    from applyUniforms_forEach_no_create [OF this, of 0] show ?thesis
      using r by (auto simp: applyUniforms_def issued_def)
  qed
  have c: "TextureCall (BindTexture TEXTURE_2D (Some t)) \<in> set (issued ?r (snd (applyUniforms ?r)))"
    if "uniformLocations h \<noteq> None" "j < length (uniforms h)"
      "imageValued (uniforms h ! j)" "texture (uniforms h ! j) = Some t" for j t
  proof -
    have "\<exists>evs. trace (snd (applyUniforms_forEach (length (uniforms ?r)) 0 0 ?r)) = trace ?r @ evs
         \<and> TextureCall (BindTexture TEXTURE_2D (Some t)) \<in> set evs"
      by (rule applyUniforms_forEach_binds [where j = j]) (use that r in simp_all)
    then show ?thesis
      by (auto simp: applyUniforms_def issued_def)
  qed
  have l: "handleWebGLContextLost h =
     h\<lparr>bufferCache := Map.empty, shaderCache := Map.empty, programCache := Map.empty,
       currentProgram := None\<rparr>"
    by (rule handleWebGLContextLost_eq)
  show ?thesis
    using l r(1) a b c by blast
qed

theorem context_loss_keeps_uniform_textures_witness:
  "texture (uniforms exampleFramed ! 0) = Some 0
   \<and> imageValued (uniforms exampleFramed ! 0)
   \<and> uniformLocations exampleFramed \<noteq> None
   \<and> uniforms
        (snd (applyUniforms (handleWebGLContextRestored (handleWebGLContextLost exampleFramed)))) ! 0
       = uniforms exampleFramed ! 0
   \<and> nextHandle (gl (snd (applyUniforms
        (handleWebGLContextRestored (handleWebGLContextLost exampleFramed))))) = 1
   \<and> TextureCall (CreateTexture 1)
        \<notin> set (issued (handleWebGLContextRestored (handleWebGLContextLost exampleFramed))
              (snd (applyUniforms (handleWebGLContextRestored (handleWebGLContextLost exampleFramed)))))
   \<and> TextureCall (BindTexture TEXTURE_2D (Some 0))
        \<in> set (issued (handleWebGLContextRestored (handleWebGLContextLost exampleFramed))
              (snd (applyUniforms (handleWebGLContextRestored (handleWebGLContextLost exampleFramed)))))"
  using context_loss_keeps_uniform_textures [of exampleFramed, THEN conjunct2]
  by (auto simp add: exampleFramed_facts imageValued_def uniformValue_def)

subsection \<open>The location maps before the first program\<close>

lemma getShader_maps:
  "uniformLocations (snd (getShader s h)) = uniformLocations h"
  "attribLocations (snd (getShader s h)) = attribLocations h"
  by (simp_all add: getShader_def fresh_def emit_def Let_def split: option.splits)

lemma getProgram_maps:
  "uniformLocations (snd (getProgram f v h)) = uniformLocations h
   \<and> attribLocations (snd (getProgram f v h)) = attribLocations h"
proof (cases "programCache h (shaderUid f @ ''/'' @ shaderUid v)")
  case (Some cached)
  then show ?thesis by (simp add: getProgram_def)
next
  case None
  obtain p h1 where f1: "fresh (ProgramCall \<circ> CreateProgram) h = (p, h1)"
    by (cases "fresh (ProgramCall \<circ> CreateProgram) h")
  then have m1: "uniformLocations h1 = uniformLocations h" "attribLocations h1 = attribLocations h"
    by (auto simp: fresh_def emit_def Let_def)
  obtain fr h2 where g1: "getShader f h1 = (fr, h2)"
    by (cases "getShader f h1")
  have m2: "uniformLocations h2 = uniformLocations h1" "attribLocations h2 = attribLocations h1"
    using getShader_maps [of f h1] g1 by simp_all
  obtain ve h4 where g2: "getShader v (emit (ProgramCall (AttachShader p fr)) h2) = (ve, h4)"
    by (cases "getShader v (emit (ProgramCall (AttachShader p fr)) h2)")
  have m4: "uniformLocations h4 = uniformLocations h2" "attribLocations h4 = attribLocations h2"
    using getShader_maps [of v "emit (ProgramCall (AttachShader p fr)) h2"] g2
    by (simp_all add: emit_def)
  show ?thesis
    using None f1 g1 g2 m1 m2 m4 by (simp add: getProgram_def Let_def emit_def)
qed

lemma createTextureInternal_maps:
  "uniformLocations (snd (createTextureInternal wrapS wrapT h)) = uniformLocations h"
  "attribLocations (snd (createTextureInternal wrapS wrapT h)) = attribLocations h"
  by (simp_all add: createTextureInternal_def fresh_def emit_def Let_def split: option.splits)

lemma getUniformLocation_undefined:
  "uniformLocations h = None \<Longrightarrow> getUniformLocation nm h = (Throw TypeError, h)"
  by (simp add: getUniformLocation_def)

lemma getAttributeLocation_undefined:
  "attribLocations h = None \<Longrightarrow> getAttributeLocation nm h = (Throw TypeError, h)"
  by (simp add: getAttributeLocation_def)

lemma setUniformMatrixValue_undefined:
  "uniformLocations h = None \<Longrightarrow> setUniformMatrixValue nm v h = (Throw TypeError, h)"
  by (simp add: setUniformMatrixValue_def getUniformLocation_undefined)

lemma applyFrameState_maps:
  "mapsUndefined h \<Longrightarrow> mapsUndefined (snd (applyFrameState fs h))"
  by (simp add: mapsUndefined_def applyFrameState_def Let_def setUniformMatrixValue_undefined)

lemma prepareDraw_loop_maps:
  "uniformLocations (prepareDraw_loop k sz pixelRatio h) = uniformLocations h
   \<and> attribLocations (prepareDraw_loop k sz pixelRatio h) = attribLocations h"
  by (induction k arbitrary: h) (simp_all add: emit_def)

lemma applyUniforms_maps:
  "mapsUndefined h \<Longrightarrow> mapsUndefined (snd (applyUniforms h))"
  using applyUniforms_forEach_frame [of "length (uniforms h)" 0 0 h]
  by (simp add: mapsUndefined_def applyUniforms_def)

lemma prepareDraw_maps:
  "mapsUndefined h \<Longrightarrow> mapsUndefined (snd (prepareDraw sz pixelRatio h))"
  unfolding prepareDraw_def Let_def
  by (rule applyUniforms_maps) (simp add: mapsUndefined_def emit_def prepareDraw_loop_maps)

lemma mapsUndefined_preserved:
  assumes "mapsUndefined h"
  shows "mapsUndefined (snd (useProgram (currentProgram h) h))"
    and "mapsUndefined (bindBuffer target b h)"
    and "mapsUndefined (snd (deleteBuffer b h))"
    and "mapsUndefined (drawElements start e h)"
    and "mapsUndefined (finalizeDraw h)"
    and "mapsUndefined (snd (getShader s h))"
    and "mapsUndefined (snd (getProgram f v h))"
    and "mapsUndefined (handleWebGLContextLost h)"
    and "mapsUndefined (handleWebGLContextRestored h)"
    and "mapsUndefined (snd (getUniformLocation nm h))"
    and "mapsUndefined (snd (getAttributeLocation nm h))"
    and "mapsUndefined (snd (setUniformFloatValue nm x h))"
    and "mapsUndefined (snd (setUniformMatrixValue nm m h))"
    and "mapsUndefined (snd (enableAttributeArray nm sz type stride offset h))"
    and "mapsUndefined (snd (createTextureInternal wrapS wrapT h))"
    and "mapsUndefined (snd (createEmptyTexture w ht wrapS wrapT h))"
    and "mapsUndefined (snd (createTexture element wrapS wrapT h))"
proof -
  from assms have u: "uniformLocations h = None" and a: "attribLocations h = None"
    by (simp_all add: mapsUndefined_def)
  show "mapsUndefined (snd (useProgram (currentProgram h) h))"
    using assms by (simp add: useProgram_def)
  show "mapsUndefined (bindBuffer target b h)"
    using u a by (simp add: mapsUndefined_def bindBuffer_def fresh_def emit_def Let_def
        split: option.splits)
  show "mapsUndefined (snd (deleteBuffer b h))"
    using u a by (simp add: mapsUndefined_def deleteBuffer_def emit_def Let_def split: option.splits)
  show "mapsUndefined (drawElements start e h)"
    using u a by (simp add: mapsUndefined_def drawElements_def emit_def Let_def)
  show "mapsUndefined (finalizeDraw h)"
    using u a by (simp add: mapsUndefined_def finalizeDraw_def finalizeDraw_from_eq)
  show "mapsUndefined (snd (getShader s h))"
    using u a by (simp add: mapsUndefined_def getShader_maps)
  show "mapsUndefined (snd (getProgram f v h))"
    using u a by (simp add: mapsUndefined_def getProgram_maps)
  show "mapsUndefined (handleWebGLContextLost h)"
    using u a by (simp add: mapsUndefined_def handleWebGLContextLost_eq)
  show "mapsUndefined (handleWebGLContextRestored h)"
    using assms by (simp add: handleWebGLContextRestored_def)
  show "mapsUndefined (snd (getUniformLocation nm h))"
    using assms u by (simp add: getUniformLocation_undefined)
  show "mapsUndefined (snd (getAttributeLocation nm h))"
    using assms a by (simp add: getAttributeLocation_undefined)
  show "mapsUndefined (snd (setUniformFloatValue nm x h))"
    using assms u by (simp add: setUniformFloatValue_def getUniformLocation_undefined)
  show "mapsUndefined (snd (setUniformMatrixValue nm m h))"
    using assms u by (simp add: setUniformMatrixValue_undefined)
  show "mapsUndefined (snd (enableAttributeArray nm sz type stride offset h))"
    using assms a by (simp add: enableAttributeArray_def getAttributeLocation_undefined)
  show "mapsUndefined (snd (createTextureInternal wrapS wrapT h))"
    using u a by (simp add: mapsUndefined_def createTextureInternal_maps)
  show "mapsUndefined (snd (createEmptyTexture w ht wrapS wrapT h))"
    using u a
    by (simp add: mapsUndefined_def createEmptyTexture_def emit_def case_prod_beta
        createTextureInternal_maps)
  show "mapsUndefined (snd (createTexture element wrapS wrapT h))"
    using u a
    by (simp add: mapsUndefined_def createTexture_def emit_def case_prod_beta
        createTextureInternal_maps)
qed

text \<open>
  Claim C10. The constructor leaves both location maps undefined, and on the helper it
  returns, as on every helper whose map is undefined, resolving a uniform or an attribute
  location throws a TypeError instead of returning a location. A \<open>useProgram\<close> that
  changes the program assigns both maps; a \<open>useProgram\<close> that does not, and every other
  method, leave undefined maps undefined.
\<close>

theorem location_maps_undefined_until_program_change:
  "mapsUndefined (constructor ctx extensions opt_options)
   \<and> getUniformLocation nm (constructor ctx extensions opt_options) =
       (Throw TypeError, constructor ctx extensions opt_options)
   \<and> getAttributeLocation nm (constructor ctx extensions opt_options) =
       (Throw TypeError, constructor ctx extensions opt_options)
   \<and> (uniformLocations h = None \<longrightarrow> getUniformLocation nm h = (Throw TypeError, h))
   \<and> (attribLocations h = None \<longrightarrow> getAttributeLocation nm h = (Throw TypeError, h))
   \<and> (program \<noteq> currentProgram h \<longrightarrow>
         uniformLocations (snd (useProgram program h)) = Some Map.empty
         \<and> attribLocations (snd (useProgram program h)) = Some Map.empty)
   \<and> (mapsUndefined h \<longrightarrow>
         mapsUndefined (snd (useProgram (currentProgram h) h))
         \<and> mapsUndefined (bindBuffer target b h)
         \<and> mapsUndefined (snd (deleteBuffer b h))
         \<and> mapsUndefined (drawElements start e h)
         \<and> mapsUndefined (snd (prepareDraw sz pixelRatio h))
         \<and> mapsUndefined (finalizeDraw h)
         \<and> mapsUndefined (snd (applyFrameState fs h))
         \<and> mapsUndefined (snd (getShader s h))
         \<and> mapsUndefined (snd (getProgram f v h))
         \<and> mapsUndefined (snd (getUniformLocation nm h))
         \<and> mapsUndefined (snd (getAttributeLocation nm h))
         \<and> mapsUndefined (snd (setUniformFloatValue nm x h))
         \<and> mapsUndefined (snd (setUniformMatrixValue nm m h))
         \<and> mapsUndefined (snd (enableAttributeArray nm asize type stride offset h))
         \<and> mapsUndefined (handleWebGLContextLost h)
         \<and> mapsUndefined (handleWebGLContextRestored h)
         \<and> mapsUndefined (snd (applyUniforms h))
         \<and> mapsUndefined (snd (createTextureInternal wrapS wrapT h))
         \<and> mapsUndefined (snd (createEmptyTexture w ht wrapS wrapT h))
         \<and> mapsUndefined (snd (createTexture element wrapS wrapT h)))"
proof -
  have c: "mapsUndefined (constructor ctx extensions opt_options)"
    by (simp add: mapsUndefined_def constructor_def emit_def Let_def)
  then have "uniformLocations (constructor ctx extensions opt_options) = None"
    "attribLocations (constructor ctx extensions opt_options) = None"
    by (simp_all add: mapsUndefined_def)
  then have t: "getUniformLocation nm (constructor ctx extensions opt_options) =
       (Throw TypeError, constructor ctx extensions opt_options)"
    "getAttributeLocation nm (constructor ctx extensions opt_options) =
       (Throw TypeError, constructor ctx extensions opt_options)"
    by (simp_all add: getUniformLocation_undefined getAttributeLocation_undefined)
  have u: "program \<noteq> currentProgram h \<longrightarrow>
         uniformLocations (snd (useProgram program h)) = Some Map.empty
         \<and> attribLocations (snd (useProgram program h)) = Some Map.empty"
    by (simp add: useProgram_def)
  show ?thesis
    using c t u
    by (simp add: getUniformLocation_undefined getAttributeLocation_undefined
        mapsUndefined_preserved prepareDraw_maps applyFrameState_maps applyUniforms_maps)
qed

theorem location_maps_undefined_until_program_change_witness:
  "mapsUndefined exampleHelper
   \<and> getUniformLocation ''u_opacity'' exampleHelper = (Throw TypeError, exampleHelper)
   \<and> getAttributeLocation ''a_position'' exampleHelper = (Throw TypeError, exampleHelper)
   \<and> mapsUndefined (bindBuffer ARRAY_BUFFER exampleBuffer exampleHelper)
   \<and> mapsUndefined (snd (useProgram None exampleHelper))
   \<and> Some 1 \<noteq> currentProgram exampleHelper
   \<and> uniformLocations (snd (useProgram (Some 1) exampleHelper)) = Some Map.empty
   \<and> attribLocations (snd (useProgram (Some 1) exampleHelper)) = Some Map.empty
   \<and> fst (getUniformLocation ''u_opacity'' (snd (useProgram (Some 1) exampleHelper))) = Return None"
  using location_maps_undefined_until_program_change
    [of exampleContext "[]" None "''u_opacity''" exampleHelper "Some 1" ARRAY_BUFFER exampleBuffer]
    location_maps_undefined_until_program_change
    [of exampleContext "[]" None "''a_position''" exampleHelper "Some 1" ARRAY_BUFFER exampleBuffer]
  by (simp add: exampleHelper_def constructor_def getUniformLocation_def useProgram_def emit_def
      exampleContext_def Let_def)

end
